theory Spec2Isabelle
  imports Complex_Main
begin

section \<open>JavaScript values\<close>

text \<open>
  The values a parsed JSON response carries, plus \<open>undefined\<close> for a property that is
  not there. Numbers are the finite values of a JSON document (so \<open>NaN\<close> and the
  infinities do not occur, and \<open>-0\<close> is \<open>0\<close>); strings are sequences of code units
  below 256; an object is an association list, the first binding of a key being the
  property.
\<close>

datatype jsval =
    JUndefined
  | JNull
  | JBool bool
  | JNum real
  | JStr string
  | JArr "jsval list"
  | JObj "(string \<times> jsval) list"

datatype js_type = TUndefined | TObject | TBoolean | TNumber | TString

fun typeof :: "jsval \<Rightarrow> js_type" where
  "typeof JUndefined = TUndefined"
| "typeof JNull = TObject"
| "typeof (JBool b) = TBoolean"
| "typeof (JNum n) = TNumber"
| "typeof (JStr s) = TString"
| "typeof (JArr xs) = TObject"
| "typeof (JObj kvs) = TObject"

text \<open>The condition of an \<open>if\<close>, of \<open>&&\<close> and of \<open>||\<close>.\<close>

fun truthy :: "jsval \<Rightarrow> bool" where
  "truthy JUndefined = False"
| "truthy JNull = False"
| "truthy (JBool b) = b"
| "truthy (JNum n) = (n \<noteq> 0)"
| "truthy (JStr s) = (s \<noteq> [])"
| "truthy (JArr xs) = True"
| "truthy (JObj kvs) = True"

datatype js_error = TypeError | TimeoutError | EngineError

text \<open>
  \<open>field in v\<close> and \<open>v.field\<close>, for the field names the helpers below use: none of
  them is an array index, \<open>length\<close>, or a member of a built-in prototype. The operator
  \<open>in\<close> raises a TypeError when its right operand is not an object. Every read
  \<open>v.field\<close> of the validator follows an \<open>in\<close> test on the same \<open>v\<close>, or a
  truthiness test of \<open>v\<close>, so it never meets \<open>null\<close> or \<open>undefined\<close>; on the
  other primitives it gives \<open>undefined\<close>.
\<close>

fun has_field :: "string \<Rightarrow> jsval \<Rightarrow> js_error + bool" where
  "has_field f (JObj kvs) = Inr (f \<in> fst ` set kvs)"
| "has_field f (JArr xs) = Inr False"
| "has_field f v = Inl TypeError"

fun get_field :: "jsval \<Rightarrow> string \<Rightarrow> jsval" where
  "get_field (JObj kvs) f = (case map_of kvs f of Some v \<Rightarrow> v | None \<Rightarrow> JUndefined)"
| "get_field v f = JUndefined"

text \<open>
  \<open>a !== b\<close> is the negation of strict equality: primitives are compared by value,
  objects and arrays by identity. The response and the expected-user record are separate
  values, so an object of one is never identical to an object of the other.
\<close>

fun strict_eq :: "jsval \<Rightarrow> jsval \<Rightarrow> bool" where
  "strict_eq (JArr xs) b = False"
| "strict_eq (JObj kvs) b = False"
| "strict_eq a b = (a = b)"

text \<open>\<open>String.prototype.trim\<close>: strips white space and line terminators at both ends.\<close>

definition is_space :: "char \<Rightarrow> bool" where
  "is_space c = (c \<in> set [CHR 0x09, CHR 0x0A, CHR 0x0B, CHR 0x0C, CHR 0x0D, CHR 0x20, CHR 0xA0])"

definition trim :: "string \<Rightarrow> string" where
  "trim s = rev (dropWhile is_space (rev (dropWhile is_space s)))"

subsection \<open>What the runtime supplies\<close>

text \<open>
  Three things come from the JavaScript runtime and not from this repository: how a
  number is printed inside a template literal, how \<open>new Date(string)\<close> parses its
  argument (\<open>None\<close> is the invalid date; otherwise milliseconds since the epoch), and the
  clock read by \<open>new Date()\<close>.
\<close>

record runtime =
  number_to_string :: "real \<Rightarrow> string"
  date_parse :: "string \<Rightarrow> int option"
  now :: int

fun join_comma :: "string list \<Rightarrow> string" where
  "join_comma [] = []"
| "join_comma [s] = s"
| "join_comma (s # t # ss) = s @ '','' @ join_comma (t # ss)"

text \<open>The results of a list of steps, or the first error among them.\<close>

fun collect :: "(js_error + 'a) list \<Rightarrow> js_error + 'a list" where
  "collect [] = Inr []"
| "collect (r # rs) =
     (case r of
        Inl e \<Rightarrow> Inl e
      | Inr x \<Rightarrow> (case collect rs of Inl e \<Rightarrow> Inl e | Inr xs \<Rightarrow> Inr (x # xs)))"

text \<open>
  The conversion \<open>${v}\<close> of a template literal. An object is converted through its
  \<open>toString\<close> and \<open>valueOf\<close> members. A parsed object inherits both, and prints as
  \<open>[object Object]\<close>, unless it has a key \<open>toString\<close> of its own: the value under that
  key is no function, the inherited \<open>valueOf\<close> (or a key \<open>valueOf\<close> of its own) gives
  no primitive either, and the conversion throws a TypeError. An array prints its
  elements, joined by commas, \<open>null\<close> and \<open>undefined\<close> as nothing, and throws when an
  element does.
\<close>

fun to_string :: "runtime \<Rightarrow> jsval \<Rightarrow> js_error + string" where
  "to_string rt JUndefined = Inr ''undefined''"
| "to_string rt JNull = Inr ''null''"
| "to_string rt (JBool b) = Inr (if b then ''true'' else ''false'')"
| "to_string rt (JNum n) = Inr (number_to_string rt n)"
| "to_string rt (JStr s) = Inr s"
| "to_string rt (JArr xs) =
     (case collect (map (\<lambda>x. case x of JUndefined \<Rightarrow> Inr [] | JNull \<Rightarrow> Inr []
                                 | _ \<Rightarrow> to_string rt x) xs) of
        Inl e \<Rightarrow> Inl e
      | Inr ss \<Rightarrow> Inr (join_comma ss))"
| "to_string rt (JObj kvs) =
     (if ''toString'' \<in> fst ` set kvs then Inl TypeError else Inr ''[object Object]'')"

definition printable :: "runtime \<Rightarrow> jsval \<Rightarrow> bool" where
  "printable rt v = (case to_string rt v of Inl e \<Rightarrow> False | Inr s \<Rightarrow> True)"

definition printed :: "runtime \<Rightarrow> jsval \<Rightarrow> string" where
  "printed rt v = (case to_string rt v of Inl e \<Rightarrow> [] | Inr s \<Rightarrow> s)"

text \<open>
  \<open>new Date(v).getTime()\<close>: a string is parsed; an object or array is first converted
  to a string, which may throw; anything else is converted to a number, which is a time
  value when it is within 8.64e15 ms of the epoch (truncated towards zero). \<open>None\<close> is
  the invalid date.
\<close>

definition time_clip :: "real \<Rightarrow> int option" where
  "time_clip n = (if \<bar>n\<bar> > 8640000000000000 then None
                  else Some (if n < 0 then - \<lfloor>- n\<rfloor> else \<lfloor>n\<rfloor>))"

fun new_Date :: "runtime \<Rightarrow> jsval \<Rightarrow> js_error + int option" where
  "new_Date rt (JStr s) = Inr (date_parse rt s)"
| "new_Date rt (JNum n) = Inr (time_clip n)"
| "new_Date rt (JBool b) = Inr (Some (if b then 1 else 0))"
| "new_Date rt JNull = Inr (Some 0)"
| "new_Date rt JUndefined = Inr None"
| "new_Date rt v = (case to_string rt v of Inl e \<Rightarrow> Inl e | Inr s \<Rightarrow> Inr (date_parse rt s))"

section \<open>The response validator\<close>

record response =
  status :: jsval
  body :: jsval

record validation =
  isValid :: bool
  errors :: "string list"
  warnings :: "string list"

definition invalidate :: "validation \<Rightarrow> validation" where
  "invalidate v = v\<lparr>isValid := False\<rparr>"

definition push_error :: "string \<Rightarrow> validation \<Rightarrow> validation" where
  "push_error msg v = v\<lparr>errors := errors v @ [msg]\<rparr>"

definition push_warning :: "string \<Rightarrow> validation \<Rightarrow> validation" where
  "push_warning msg v = v\<lparr>warnings := warnings v @ [msg]\<rparr>"

text \<open>One statement after another: an error thrown by the first ends the function.\<close>

definition and_then :: "js_error + 'a \<Rightarrow> ('a \<Rightarrow> js_error + 'b) \<Rightarrow> js_error + 'b" where
  "and_then r f = (case r of Inl e \<Rightarrow> Inl e | Inr x \<Rightarrow> f x)"

text \<open>
  The three \<open>forEach\<close> loops over a list of required field names: a field that is not
  \<open>in\<close> the object clears \<open>isValid\<close> and appends the message made of the loop's prefix
  and the field name.
\<close>

fun check_required :: "string \<Rightarrow> jsval \<Rightarrow> string list \<Rightarrow> validation \<Rightarrow> js_error + validation" where
  "check_required prefix obj [] v = Inr v"
| "check_required prefix obj (f # fs) v =
     (case has_field f obj of
        Inl e \<Rightarrow> Inl e
      | Inr present \<Rightarrow>
          check_required prefix obj fs
            (if \<not> present then push_error (prefix @ f) (invalidate v) else v))"

text \<open>
  A check whose message prints a value throws when the value cannot be printed; a check
  that does not come to print makes no conversion.
\<close>

definition check_status :: "runtime \<Rightarrow> response \<Rightarrow> validation \<Rightarrow> js_error + validation" where
  "check_status rt r v =
     (if status r \<noteq> JNum 200
      then and_then (to_string rt (status r)) (\<lambda>s.
             Inr (push_error (''Expected status 200, got '' @ s) (invalidate v)))
      else Inr v)"

definition check_success :: "runtime \<Rightarrow> jsval \<Rightarrow> validation \<Rightarrow> js_error + validation" where
  "check_success rt b v =
     (if get_field b ''success'' \<noteq> JBool True
      then and_then (to_string rt (get_field b ''success'')) (\<lambda>s.
             Inr (push_error (''Expected success to be true, got '' @ s) (invalidate v)))
      else Inr v)"

definition check_message :: "jsval \<Rightarrow> validation \<Rightarrow> validation" where
  "check_message b v =
     (if (case get_field b ''message'' of JStr s \<Rightarrow> trim s = [] | _ \<Rightarrow> True)
      then push_error ''Message field should be a non-empty string'' (invalidate v)
      else v)"

text \<open>The type checks on the user object: they append without clearing \<open>isValid\<close>.\<close>

definition check_user_types :: "jsval \<Rightarrow> validation \<Rightarrow> validation" where
  "check_user_types u v =
     (let v1 = (if truthy (get_field u ''id'') \<and> typeof (get_field u ''id'') \<noteq> TNumber
                then push_error ''User ID should be a number'' v else v);
          v2 = (if truthy (get_field u ''email'') \<and> typeof (get_field u ''email'') \<noteq> TString
                then push_error ''User email should be a string'' v1 else v1)
      in if truthy (get_field u ''is_active'')
            \<and> get_field u ''is_active'' \<notin> set [JNum 0, JNum 1, JBool True, JBool False]
         then push_warning ''User is_active should be 0, 1, true, or false'' v2 else v2)"

definition check_expected_email :: "runtime \<Rightarrow> jsval \<Rightarrow> jsval \<Rightarrow> validation \<Rightarrow> js_error + validation" where
  "check_expected_email rt u expectedUser v =
     (if truthy (get_field expectedUser ''email'')
         \<and> \<not> strict_eq (get_field u ''email'') (get_field expectedUser ''email'')
      then and_then (to_string rt (get_field expectedUser ''email'')) (\<lambda>expected.
           and_then (to_string rt (get_field u ''email'')) (\<lambda>got.
             Inr (push_error (''Expected email '' @ expected @ '', got '' @ got) v)))
      else Inr v)"

definition check_expected_name :: "runtime \<Rightarrow> jsval \<Rightarrow> jsval \<Rightarrow> validation \<Rightarrow> js_error + validation" where
  "check_expected_name rt u expectedUser v =
     (if truthy (get_field expectedUser ''name'')
         \<and> \<not> strict_eq (get_field u ''name'') (get_field expectedUser ''name'')
      then and_then (to_string rt (get_field expectedUser ''name'')) (\<lambda>expected.
           and_then (to_string rt (get_field u ''name'')) (\<lambda>got.
             Inr (push_warning (''Expected name '' @ expected @ '', got '' @ got) v)))
      else Inr v)"

definition check_expected_user :: "runtime \<Rightarrow> jsval \<Rightarrow> jsval \<Rightarrow> validation \<Rightarrow> js_error + validation" where
  "check_expected_user rt u expectedUser v =
     (if truthy expectedUser then
        and_then (check_expected_email rt u expectedUser v) (check_expected_name rt u expectedUser)
      else Inr v)"

definition validate_user :: "runtime \<Rightarrow> jsval \<Rightarrow> jsval \<Rightarrow> validation \<Rightarrow> js_error + validation" where
  "validate_user rt d expectedUser v =
     (if truthy (get_field d ''user'') then
        and_then
          (check_required ''Missing required user field: '' (get_field d ''user'')
             [''id'', ''name'', ''email'', ''is_active'', ''created_at'', ''updated_at''] v)
          (\<lambda>v1. check_expected_user rt (get_field d ''user'') expectedUser
                   (check_user_types (get_field d ''user'') v1))
      else Inr v)"

definition check_access_token :: "jsval \<Rightarrow> validation \<Rightarrow> validation" where
  "check_access_token d v =
     (if get_field d ''access_token'' \<noteq> JUndefined \<and> typeof (get_field d ''access_token'') \<noteq> TString
      then push_warning ''Access token should be a string'' v else v)"

definition check_token_expiry :: "runtime \<Rightarrow> jsval \<Rightarrow> validation \<Rightarrow> js_error + validation" where
  "check_token_expiry rt d v =
     (if truthy (get_field d ''access_token_expire_at'') then
        and_then (new_Date rt (get_field d ''access_token_expire_at'')) (\<lambda>expireDate.
          case expireDate of
            None \<Rightarrow> Inr (push_error ''Invalid access_token_expire_at date format'' v)
          | Some t \<Rightarrow>
              Inr (if t \<le> now rt then push_warning ''Access token appears to be expired'' v else v))
      else Inr v)"

definition validate_data :: "runtime \<Rightarrow> jsval \<Rightarrow> jsval \<Rightarrow> validation \<Rightarrow> js_error + validation" where
  "validate_data rt b expectedUser v =
     (if truthy (get_field b ''data'') then
        and_then
          (check_required ''Missing required data field: '' (get_field b ''data'')
             [''user'', ''access_token'', ''access_token_expire_at''] v)
          (\<lambda>v1. and_then (validate_user rt (get_field b ''data'') expectedUser v1)
          (\<lambda>v2. check_token_expiry rt (get_field b ''data'')
                   (check_access_token (get_field b ''data'') v2)))
      else Inr v)"

definition validateLoginResponse :: "runtime \<Rightarrow> response \<Rightarrow> jsval \<Rightarrow> js_error + validation" where
  "validateLoginResponse rt r expectedUser =
     and_then (check_status rt r \<lparr>isValid = True, errors = [], warnings = []\<rparr>) (\<lambda>v0.
     and_then (check_required ''Missing required field: '' (body r)
                 [''success'', ''message'', ''data''] v0) (\<lambda>v1.
     and_then (check_success rt (body r) v1) (\<lambda>v2.
     validate_data rt (body r) expectedUser (check_message (body r) v2))))"

subsection \<open>Well-formed responses\<close>

text \<open>
  What the specification calls a fully well-formed login response, part by part: the
  status and the three top-level fields; the user record (all six fields, a numeric id, a
  string email, an active flag among 0, 1, true and false); agreement with the
  expected-user record when one is given; the data object around the user; an expiry
  that lies strictly after the clock.
\<close>

definition top_level_well_formed :: "response \<Rightarrow> bool" where
  "top_level_well_formed r \<longleftrightarrow>
     status r = JNum 200
     \<and> list_all (\<lambda>f. has_field f (body r) = Inr True) [''success'', ''message'', ''data'']
     \<and> get_field (body r) ''success'' = JBool True
     \<and> (case get_field (body r) ''message'' of JStr s \<Rightarrow> trim s \<noteq> [] | _ \<Rightarrow> False)"

definition user_well_formed :: "jsval \<Rightarrow> bool" where
  "user_well_formed u \<longleftrightarrow>
     list_all (\<lambda>f. has_field f u = Inr True)
       [''id'', ''name'', ''email'', ''is_active'', ''created_at'', ''updated_at'']
     \<and> typeof (get_field u ''id'') = TNumber
     \<and> typeof (get_field u ''email'') = TString
     \<and> get_field u ''is_active'' \<in> set [JNum 0, JNum 1, JBool True, JBool False]"

definition expected_user_matches :: "jsval \<Rightarrow> jsval \<Rightarrow> bool" where
  "expected_user_matches u expectedUser \<longleftrightarrow>
     \<not> truthy expectedUser
     \<or> ((\<not> truthy (get_field expectedUser ''email'')
           \<or> strict_eq (get_field u ''email'') (get_field expectedUser ''email''))
        \<and> (\<not> truthy (get_field expectedUser ''name'')
           \<or> strict_eq (get_field u ''name'') (get_field expectedUser ''name'')))"

definition data_well_formed :: "jsval \<Rightarrow> jsval \<Rightarrow> bool" where
  "data_well_formed d expectedUser \<longleftrightarrow>
     list_all (\<lambda>f. has_field f d = Inr True) [''user'', ''access_token'', ''access_token_expire_at'']
     \<and> user_well_formed (get_field d ''user'')
     \<and> expected_user_matches (get_field d ''user'') expectedUser
     \<and> typeof (get_field d ''access_token'') = TString"

definition expiry_in_future :: "runtime \<Rightarrow> jsval \<Rightarrow> bool" where
  "expiry_in_future rt d \<longleftrightarrow>
     truthy (get_field d ''access_token_expire_at'')
     \<and> (case new_Date rt (get_field d ''access_token_expire_at'') of
          Inr (Some t) \<Rightarrow> now rt < t | _ \<Rightarrow> False)"

text \<open>
  The same object with property \<open>f\<close> set to \<open>x\<close>, and a response with the user's
  \<open>is_active\<close> replaced: used to compare two responses that differ in that flag only.
\<close>

fun put_field :: "string \<Rightarrow> jsval \<Rightarrow> jsval \<Rightarrow> jsval" where
  "put_field f x (JObj kvs) = JObj ((f, x) # kvs)"
| "put_field f x v = v"

definition with_is_active :: "jsval \<Rightarrow> response \<Rightarrow> response" where
  "with_is_active x r =
     r\<lparr>body :=
         put_field ''data''
           (put_field ''user''
              (put_field ''is_active'' x (get_field (get_field (body r) ''data'') ''user''))
              (get_field (body r) ''data''))
           (body r)\<rparr>"

text \<open>
  Two results differ by the warning \<open>m\<close> only: same errors, same verdict, and the first
  has the warning. Two runs are alike when both throw the same error, or both return and
  the results are related.
\<close>

definition adds_warning :: "string \<Rightarrow> validation \<Rightarrow> validation \<Rightarrow> bool" where
  "adds_warning m v w \<longleftrightarrow> errors v = errors w \<and> isValid v = isValid w \<and> m \<in> set (warnings v)"

definition alike :: "('a \<Rightarrow> 'a \<Rightarrow> bool) \<Rightarrow> js_error + 'a \<Rightarrow> js_error + 'a \<Rightarrow> bool" where
  "alike P a b =
     (case a of
        Inl e \<Rightarrow> b = Inl e
      | Inr v \<Rightarrow> (case b of Inl e \<Rightarrow> False | Inr w \<Rightarrow> P v w))"

subsection \<open>The examples of the specification\<close>

text \<open>
  A runtime for the closed examples: the clock stands at 2026-01-01T00:00:00Z, the date
  parser knows the two timestamps the examples use, and numbers are printed in decimal,
  which is exact on the integers below 1e21.
\<close>

fun decimal :: "nat \<Rightarrow> string" where
  "decimal n = (if n < 10 then [char_of (48 + n)] else decimal (n div 10) @ [char_of (48 + n mod 10)])"

definition example_date_parse :: "string \<Rightarrow> int option" where
  "example_date_parse s =
     (if s = ''2999-01-01T00:00:00.000000Z'' then Some 32472144000000
      else if s = ''2024-01-01T00:00:00.000000Z'' then Some 1704067200000
      else None)"

definition example_runtime :: runtime where
  "example_runtime =
     \<lparr>number_to_string = (\<lambda>x. (if x < 0 then ''-'' else []) @ decimal (nat \<lfloor>\<bar>x\<bar>\<rfloor>)),
      date_parse = example_date_parse,
      now = 1767225600000\<rparr>"

definition example_user :: "jsval \<Rightarrow> jsval \<Rightarrow> jsval" where
  "example_user ident active =
     JObj [(''id'', ident), (''name'', JStr ''Admin''), (''email'', JStr ''admin@admin.com''),
           (''is_active'', active), (''created_at'', JStr ''2024-01-01T00:00:00.000000Z''),
           (''updated_at'', JStr ''2024-01-01T00:00:00.000000Z'')]"

definition example_data :: "jsval \<Rightarrow> jsval \<Rightarrow> jsval" where
  "example_data user expiry =
     JObj [(''user'', user), (''access_token'', JStr ''abc''), (''access_token_expire_at'', expiry)]"

definition example_response :: "jsval \<Rightarrow> jsval \<Rightarrow> response" where
  "example_response user expiry =
     \<lparr>status = JNum 200,
      body = JObj [(''success'', JBool True), (''message'', JStr ''Successfully logged in.''),
                   (''data'', example_data user expiry)]\<rparr>"

definition example_without_message :: response where
  "example_without_message =
     \<lparr>status = JNum 200,
      body = JObj [(''success'', JBool True),
                   (''data'', example_data (example_user (JNum 1) (JNum 1))
                                (JStr ''2999-01-01T00:00:00.000000Z''))]\<rparr>"

text \<open>The example with \<open>is_active\<close> 2 and, for \<open>success\<close>, an object that cannot be printed.\<close>

definition example_unprintable_success :: response where
  "example_unprintable_success =
     \<lparr>status = JNum 200,
      body = JObj [(''success'', JObj [(''toString'', JNum 1)]),
                   (''message'', JStr ''Successfully logged in.''),
                   (''data'', example_data (example_user (JNum 1) (JNum 2))
                                (JStr ''2999-01-01T00:00:00.000000Z''))]\<rparr>"

definition example_expected_user :: jsval where
  "example_expected_user = JObj [(''email'', JStr ''admin@admin.com'')]"


section \<open>Page objects over the browser engine\<close>

text \<open>
  The automation engine is not part of this repository. A page object reaches it through
  calls; what the engine answers may depend on everything it was asked before, so the
  engine is a function from the history of calls and the present call to an outcome
  (fulfilled with a value, or rejected with an error), together with the moment the
  outcome arrives, which decides a race. A page-object method is a function of the history
  that returns its result, or the error it throws, and the extended history.
\<close>

datatype call =
    WaitForSelector jsval nat
  | LocatorWaitFor "jsval list" nat
  | WaitForURL string nat
  | Clear jsval
  | Fill jsval jsval
  | Click jsval
  | IsChecked jsval
  | Check jsval
  | Uncheck jsval
  | SelectOption jsval jsval
  | SetInputFiles jsval jsval

record engine =
  respond :: "call list \<Rightarrow> call \<Rightarrow> js_error + jsval"
  settle_time :: "call list \<Rightarrow> call \<Rightarrow> nat"

type_synonym 'a io = "call list \<Rightarrow> (js_error + 'a) \<times> call list"

definition ret :: "'a \<Rightarrow> 'a io" where
  "ret x h = (Inr x, h)"

definition raise :: "js_error \<Rightarrow> 'a io" where
  "raise e h = (Inl e, h)"

text \<open>\<open>const x = await m; f x\<close>: an error of \<open>m\<close> is thrown on.\<close>

definition await :: "'a io \<Rightarrow> ('a \<Rightarrow> 'b io) \<Rightarrow> 'b io" where
  "await m f h = (case m h of (Inl e, h') \<Rightarrow> (Inl e, h') | (Inr x, h') \<Rightarrow> f x h')"

definition try_catch :: "'a io \<Rightarrow> (js_error \<Rightarrow> 'a io) \<Rightarrow> 'a io" where
  "try_catch m handler h =
     (case m h of (Inl e, h') \<Rightarrow> handler e h' | (Inr x, h') \<Rightarrow> (Inr x, h'))"

definition perform :: "engine \<Rightarrow> call \<Rightarrow> jsval io" where
  "perform eng c h = (respond eng h c, h @ [c])"

text \<open>
  \<open>Promise.race\<close> over a non-empty list of engine calls, all started at once: the
  outcome is that of the call that settles first, the earliest in the list among equals.
\<close>

definition race :: "engine \<Rightarrow> call \<Rightarrow> call list \<Rightarrow> jsval io" where
  "race eng c cs h = (respond eng h (arg_min_list (settle_time eng h) (c # cs)), h @ c # cs)"

text \<open>The selector a call addresses, when it addresses one.\<close>

fun selector_of :: "call \<Rightarrow> jsval option" where
  "selector_of (WaitForSelector s t) = Some s"
| "selector_of (LocatorWaitFor chain t) = (if chain = [] then None else Some (last chain))"
| "selector_of (WaitForURL p t) = None"
| "selector_of (Clear s) = Some s"
| "selector_of (Fill s x) = Some s"
| "selector_of (Click s) = Some s"
| "selector_of (IsChecked s) = Some s"
| "selector_of (Check s) = Some s"
| "selector_of (Uncheck s) = Some s"
| "selector_of (SelectOption s x) = Some s"
| "selector_of (SetInputFiles s x) = Some s"

subsection \<open>BasePage\<close>

definition waitForElement :: "engine \<Rightarrow> jsval \<Rightarrow> nat \<Rightarrow> unit io" where
  "waitForElement eng selector timeout =
     await (perform eng (WaitForSelector selector timeout)) (\<lambda>_. ret ())"

definition page_isElementVisible :: "engine \<Rightarrow> jsval \<Rightarrow> bool io" where
  "page_isElementVisible eng selector =
     try_catch (await (perform eng (WaitForSelector selector 5000)) (\<lambda>_. ret True))
       (\<lambda>_. ret False)"

subsection \<open>BaseComponent\<close>

text \<open>
  A component is its root selector, \<open>null\<close> by default. A locator is the chain of
  selectors from the page down; the page itself is the empty chain.
\<close>

definition component_root :: "jsval \<Rightarrow> jsval list" where
  "component_root rootSelector = (if truthy rootSelector then [rootSelector] else [])"

definition locator :: "jsval \<Rightarrow> jsval \<Rightarrow> jsval list" where
  "locator rootSelector selector = component_root rootSelector @ [selector]"

definition isVisible :: "engine \<Rightarrow> jsval \<Rightarrow> bool io" where
  "isVisible eng rootSelector =
     (if \<not> truthy rootSelector then ret True
      else try_catch
             (await (perform eng (LocatorWaitFor (component_root rootSelector) 5000)) (\<lambda>_. ret True))
             (\<lambda>_. ret False))"

definition component_isElementVisible :: "engine \<Rightarrow> jsval \<Rightarrow> jsval \<Rightarrow> bool io" where
  "component_isElementVisible eng rootSelector selector =
     try_catch
       (await (perform eng (LocatorWaitFor (locator rootSelector selector) 5000)) (\<lambda>_. ret True))
       (\<lambda>_. ret False)"

subsection \<open>Helpers shared by the page methods\<close>

text \<open>
  Three bodies recur in the page classes: wait for an input, clear it and fill it; probe a
  checkbox and bring it to the wanted state (the parameter defaults to \<open>true\<close>); read a
  property of the argument object, which throws on \<open>null\<close> and \<open>undefined\<close>.
\<close>

definition wait_clear_fill :: "engine \<Rightarrow> jsval \<Rightarrow> jsval \<Rightarrow> unit io" where
  "wait_clear_fill eng selector text =
     await (waitForElement eng selector 10000) (\<lambda>_.
     await (perform eng (Clear selector)) (\<lambda>_.
     await (perform eng (Fill selector text)) (\<lambda>_. ret ())))"

definition wait_click :: "engine \<Rightarrow> jsval \<Rightarrow> unit io" where
  "wait_click eng selector =
     await (waitForElement eng selector 10000) (\<lambda>_.
     await (perform eng (Click selector)) (\<lambda>_. ret ()))"

definition set_checkbox :: "engine \<Rightarrow> jsval \<Rightarrow> jsval \<Rightarrow> unit io" where
  "set_checkbox eng selector arg =
     (let check = (if arg = JUndefined then JBool True else arg) in
      await (page_isElementVisible eng selector) (\<lambda>visible.
        if visible then
          await (perform eng (IsChecked selector)) (\<lambda>isChecked.
            if truthy check \<and> \<not> truthy isChecked then
              await (perform eng (Check selector)) (\<lambda>_. ret ())
            else if \<not> truthy check \<and> truthy isChecked then
              await (perform eng (Uncheck selector)) (\<lambda>_. ret ())
            else ret ())
        else ret ()))"

definition member :: "jsval \<Rightarrow> string \<Rightarrow> jsval io" where
  "member v f =
     (case v of JUndefined \<Rightarrow> raise TypeError | JNull \<Rightarrow> raise TypeError | _ \<Rightarrow> ret (get_field v f))"

subsection \<open>LoginPage\<close>

definition login_emailInput :: jsval where
  \<open>login_emailInput = JStr ''input[type="email"], input[name="email"], input[placeholder*="Email"], #email, input:first-of-type''\<close>

definition login_passwordInput :: jsval where
  \<open>login_passwordInput = JStr ''input[type="password"], input[name="password"], input[placeholder*="Password"], #password''\<close>

definition login_loginButton :: jsval where
  \<open>login_loginButton = JStr ''button[type="submit"], .login-button, button:has-text("Sign In"), .btn-primary''\<close>

definition login_errorMessage :: jsval where
  \<open>login_errorMessage = JStr ''.error-message, .alert-danger, .text-danger, [role="alert"]''\<close>

definition login_successMessage :: jsval where
  \<open>login_successMessage = JStr ''.success-message, .alert-success, .text-success''\<close>

text \<open>The selector table of the login page has no \<open>rememberMeCheckbox\<close> entry.\<close>

definition login_rememberMeCheckbox :: jsval where
  "login_rememberMeCheckbox = JUndefined"

definition login_fillEmail :: "engine \<Rightarrow> jsval \<Rightarrow> unit io" where
  "login_fillEmail eng email = wait_clear_fill eng login_emailInput email"

definition fillUsername :: "engine \<Rightarrow> jsval \<Rightarrow> unit io" where
  "fillUsername eng username = login_fillEmail eng username"

definition fillPassword :: "engine \<Rightarrow> jsval \<Rightarrow> unit io" where
  "fillPassword eng password = wait_clear_fill eng login_passwordInput password"

definition clickLoginButton :: "engine \<Rightarrow> unit io" where
  "clickLoginButton eng = wait_click eng login_loginButton"

definition checkRememberMe :: "engine \<Rightarrow> jsval \<Rightarrow> unit io" where
  "checkRememberMe eng check = set_checkbox eng login_rememberMeCheckbox check"

definition login_outcome_waits :: "call list" where
  "login_outcome_waits =
     [WaitForSelector login_successMessage 5000, WaitForSelector login_errorMessage 5000,
      WaitForURL ''**/dashboard'' 5000, WaitForURL ''**/home'' 5000]"

definition login :: "engine \<Rightarrow> jsval \<Rightarrow> jsval \<Rightarrow> jsval \<Rightarrow> unit io" where
  "login eng username password rememberMe =
     await (fillUsername eng username) (\<lambda>_.
     await (fillPassword eng password) (\<lambda>_.
     await (if truthy rememberMe then checkRememberMe eng JUndefined else ret ()) (\<lambda>_.
     await (clickLoginButton eng) (\<lambda>_.
     try_catch
       (await (race eng (hd login_outcome_waits) (tl login_outcome_waits)) (\<lambda>_. ret ()))
       (\<lambda>_. ret ())))))"

text \<open>The statements of \<open>login\<close> that come before its \<open>try\<close> block.\<close>

definition login_before_wait :: "engine \<Rightarrow> jsval \<Rightarrow> jsval \<Rightarrow> jsval \<Rightarrow> unit io" where
  "login_before_wait eng username password rememberMe =
     await (fillUsername eng username) (\<lambda>_.
     await (fillPassword eng password) (\<lambda>_.
     await (if truthy rememberMe then checkRememberMe eng JUndefined else ret ()) (\<lambda>_.
     clickLoginButton eng)))"


subsection \<open>ContactPage\<close>

definition contact_firstNameInput :: jsval where
  \<open>contact_firstNameInput = JStr ''[data-testid="first-name-input"]''\<close>

definition contact_lastNameInput :: jsval where
  \<open>contact_lastNameInput = JStr ''[data-testid="last-name-input"]''\<close>

definition contact_emailInput :: jsval where
  \<open>contact_emailInput = JStr ''[data-testid="email-input"]''\<close>

definition contact_phoneInput :: jsval where
  \<open>contact_phoneInput = JStr ''[data-testid="phone-input"]''\<close>

definition contact_subjectInput :: jsval where
  \<open>contact_subjectInput = JStr ''[data-testid="subject-input"]''\<close>

definition contact_messageTextarea :: jsval where
  \<open>contact_messageTextarea = JStr ''[data-testid="message-textarea"]''\<close>

definition contact_submitButton :: jsval where
  \<open>contact_submitButton = JStr ''[data-testid="submit-button"]''\<close>

definition contact_errorMessage :: jsval where
  \<open>contact_errorMessage = JStr ''[data-testid="error-message"]''\<close>

definition contact_successMessage :: jsval where
  \<open>contact_successMessage = JStr ''[data-testid="success-message"]''\<close>

definition contact_inquiryTypeSelect :: jsval where
  \<open>contact_inquiryTypeSelect = JStr ''[data-testid="inquiry-type-select"]''\<close>

definition contact_attachmentInput :: jsval where
  \<open>contact_attachmentInput = JStr ''[data-testid="attachment-input"]''\<close>

definition contact_privacyCheckbox :: jsval where
  \<open>contact_privacyCheckbox = JStr ''[data-testid="privacy-checkbox"]''\<close>

definition contact_newsletterCheckbox :: jsval where
  \<open>contact_newsletterCheckbox = JStr ''[data-testid="newsletter-checkbox"]''\<close>

definition fillFirstName :: "engine \<Rightarrow> jsval \<Rightarrow> unit io" where
  "fillFirstName eng firstName = wait_clear_fill eng contact_firstNameInput firstName"

definition fillLastName :: "engine \<Rightarrow> jsval \<Rightarrow> unit io" where
  "fillLastName eng lastName = wait_clear_fill eng contact_lastNameInput lastName"

definition contact_fillEmail :: "engine \<Rightarrow> jsval \<Rightarrow> unit io" where
  "contact_fillEmail eng email = wait_clear_fill eng contact_emailInput email"

definition fillPhone :: "engine \<Rightarrow> jsval \<Rightarrow> unit io" where
  "fillPhone eng phone =
     await (page_isElementVisible eng contact_phoneInput) (\<lambda>visible.
       if visible then
         await (perform eng (Clear contact_phoneInput)) (\<lambda>_.
         await (perform eng (Fill contact_phoneInput phone)) (\<lambda>_. ret ()))
       else ret ())"

definition fillSubject :: "engine \<Rightarrow> jsval \<Rightarrow> unit io" where
  "fillSubject eng subject = wait_clear_fill eng contact_subjectInput subject"

definition fillMessage :: "engine \<Rightarrow> jsval \<Rightarrow> unit io" where
  "fillMessage eng message = wait_clear_fill eng contact_messageTextarea message"

definition selectInquiryType :: "engine \<Rightarrow> jsval \<Rightarrow> unit io" where
  "selectInquiryType eng inquiryType =
     await (page_isElementVisible eng contact_inquiryTypeSelect) (\<lambda>visible.
       if visible then
         await (perform eng (SelectOption contact_inquiryTypeSelect inquiryType)) (\<lambda>_. ret ())
       else ret ())"

definition checkPrivacyPolicy :: "engine \<Rightarrow> jsval \<Rightarrow> unit io" where
  "checkPrivacyPolicy eng check = set_checkbox eng contact_privacyCheckbox check"

definition checkNewsletter :: "engine \<Rightarrow> jsval \<Rightarrow> unit io" where
  "checkNewsletter eng check = set_checkbox eng contact_newsletterCheckbox check"

definition uploadAttachment :: "engine \<Rightarrow> jsval \<Rightarrow> unit io" where
  "uploadAttachment eng filePath =
     await (page_isElementVisible eng contact_attachmentInput) (\<lambda>visible.
       if visible then
         await (perform eng (SetInputFiles contact_attachmentInput filePath)) (\<lambda>_. ret ())
       else ret ())"

definition clickSubmit :: "engine \<Rightarrow> unit io" where
  "clickSubmit eng = wait_click eng contact_submitButton"

text \<open>
  \<open>if (contactData.f) await helper(contactData.f)\<close> and
  \<open>if (contactData.f !== undefined) await helper(contactData.f)\<close>.
\<close>

definition if_truthy :: "jsval \<Rightarrow> string \<Rightarrow> (jsval \<Rightarrow> unit io) \<Rightarrow> unit io" where
  "if_truthy contactData f helper =
     await (member contactData f) (\<lambda>x. if truthy x then helper x else ret ())"

definition if_defined :: "jsval \<Rightarrow> string \<Rightarrow> (jsval \<Rightarrow> unit io) \<Rightarrow> unit io" where
  "if_defined contactData f helper =
     await (member contactData f) (\<lambda>x. if x \<noteq> JUndefined then helper x else ret ())"

definition fillContactForm :: "engine \<Rightarrow> jsval \<Rightarrow> unit io" where
  "fillContactForm eng contactData =
     await (if_truthy contactData ''firstName'' (fillFirstName eng)) (\<lambda>_.
     await (if_truthy contactData ''lastName'' (fillLastName eng)) (\<lambda>_.
     await (if_truthy contactData ''email'' (contact_fillEmail eng)) (\<lambda>_.
     await (if_truthy contactData ''phone'' (fillPhone eng)) (\<lambda>_.
     await (if_truthy contactData ''subject'' (fillSubject eng)) (\<lambda>_.
     await (if_truthy contactData ''message'' (fillMessage eng)) (\<lambda>_.
     await (if_truthy contactData ''inquiryType'' (selectInquiryType eng)) (\<lambda>_.
     await (if_truthy contactData ''attachment'' (uploadAttachment eng)) (\<lambda>_.
     await (if_defined contactData ''acceptPrivacy'' (checkPrivacyPolicy eng)) (\<lambda>_.
     if_defined contactData ''subscribeNewsletter'' (checkNewsletter eng))))))))))"

definition contact_outcome_waits :: "call list" where
  "contact_outcome_waits =
     [WaitForSelector contact_successMessage 10000, WaitForSelector contact_errorMessage 10000]"

definition submitContactForm :: "engine \<Rightarrow> jsval \<Rightarrow> unit io" where
  "submitContactForm eng contactData =
     await (fillContactForm eng contactData) (\<lambda>_.
     await (clickSubmit eng) (\<lambda>_.
     try_catch
       (await (race eng (hd contact_outcome_waits) (tl contact_outcome_waits)) (\<lambda>_. ret ()))
       (\<lambda>_. ret ())))"

text \<open>The statements of \<open>submitContactForm\<close> that come before its \<open>try\<close> block.\<close>

definition submit_before_wait :: "engine \<Rightarrow> jsval \<Rightarrow> unit io" where
  "submit_before_wait eng contactData =
     await (fillContactForm eng contactData) (\<lambda>_. clickSubmit eng)"

text \<open>
  Which selectors a call of \<open>fillContactForm\<close> may address, read off the argument: the
  selector of each of the eight fields whose value is truthy, and of each of the two
  checkbox fields whose value is not \<open>undefined\<close>.
\<close>

definition gated_fields :: "(string \<times> jsval) list" where
  "gated_fields =
     [(''firstName'', contact_firstNameInput), (''lastName'', contact_lastNameInput),
      (''email'', contact_emailInput), (''phone'', contact_phoneInput),
      (''subject'', contact_subjectInput), (''message'', contact_messageTextarea),
      (''inquiryType'', contact_inquiryTypeSelect), (''attachment'', contact_attachmentInput)]"

definition checkbox_fields :: "(string \<times> jsval) list" where
  "checkbox_fields =
     [(''acceptPrivacy'', contact_privacyCheckbox),
      (''subscribeNewsletter'', contact_newsletterCheckbox)]"

definition addressed_selectors :: "jsval \<Rightarrow> jsval list" where
  "addressed_selectors contactData =
     map snd (filter (\<lambda>(f, s). truthy (get_field contactData f)) gated_fields)
     @ map snd (filter (\<lambda>(f, s). get_field contactData f \<noteq> JUndefined) checkbox_fields)"

text \<open>Every history a method leaves extends the one it found, by calls that satisfy \<open>P\<close>.\<close>

definition only_calls :: "(call \<Rightarrow> bool) \<Rightarrow> 'a io \<Rightarrow> bool" where
  "only_calls P m \<longleftrightarrow> (\<forall>h. \<exists>cs. snd (m h) = h @ cs \<and> list_all P cs)"

text \<open>Every run of a method that returns normally has made the call \<open>c\<close>.\<close>

definition calls_on_success :: "call \<Rightarrow> 'a io \<Rightarrow> bool" where
  "calls_on_success c m \<longleftrightarrow>
     (\<forall>h x h'. m h = (Inr x, h') \<longrightarrow> c \<in> set (drop (length h) h'))"

definition fulfilled :: "js_error + 'a \<Rightarrow> bool" where
  "fulfilled r = (case r of Inl e \<Rightarrow> False | Inr x \<Rightarrow> True)"

subsection \<open>Two engines for the closed examples\<close>

text \<open>
  On \<open>never_visible\<close> every call times out. On \<open>no_outcome\<close> every form action
  succeeds (a checkbox reads as unchecked) and the waits for an outcome of a submission
  all time out, each when its timeout has run.
\<close>

definition never_visible :: engine where
  "never_visible = \<lparr>respond = (\<lambda>h c. Inl TimeoutError), settle_time = (\<lambda>h c. 5000)\<rparr>"

definition no_outcome :: engine where
  "no_outcome =
     \<lparr>respond = (\<lambda>h c. if c \<in> set (login_outcome_waits @ contact_outcome_waits)
                        then Inl TimeoutError else Inr (JBool False)),
      settle_time = (\<lambda>h c. case c of WaitForSelector s t \<Rightarrow> t | LocatorWaitFor l t \<Rightarrow> t
                                   | WaitForURL p t \<Rightarrow> t | _ \<Rightarrow> 0)\<rparr>"

definition example_contactData :: jsval where
  "example_contactData = JObj [(''firstName'', JStr []), (''email'', JStr ''john.doe@example.com''),
                               (''acceptPrivacy'', JBool False)]"

section \<open>Fixture data\<close>

text \<open>
  \<open>testUsers\<close> and \<open>environments\<close> are object literals, so a lookup \<open>obj[key]\<close> that
  finds no own property goes on to \<open>Object.prototype\<close>, whose members are functions
  (and, for \<open>__proto__\<close>, an object): values that are truthy and are not fixture records.
\<close>

definition validUser :: jsval where
  "validUser = JObj [(''username'', JStr ''testuser@example.com''), (''password'', JStr ''TestPass123!''),
                     (''firstName'', JStr ''Test''), (''lastName'', JStr ''User''),
                     (''fullName'', JStr ''Test User'')]"

definition testUsers :: "(string \<times> jsval) list" where
  "testUsers =
     [(''validUser'', validUser),
      (''invalidUser'', JObj [(''username'', JStr ''invalid@example.com''), (''password'', JStr ''wrongpassword''),
                              (''firstName'', JStr ''Invalid''), (''lastName'', JStr ''User'')]),
      (''adminUser'', JObj [(''username'', JStr ''admin@example.com''), (''password'', JStr ''AdminPass123!''),
                            (''firstName'', JStr ''Admin''), (''lastName'', JStr ''User''),
                            (''role'', JStr ''administrator'')]),
      (''emptyCredentials'', JObj [(''username'', JStr []), (''password'', JStr [])])]"

definition dev :: jsval where
  "dev = JObj [(''baseUrl'', JStr ''http://localhost:3000''),
               (''apiUrl'', JStr ''http://localhost:3001/api'')]"

definition environments :: "(string \<times> jsval) list" where
  "environments =
     [(''dev'', dev),
      (''staging'', JObj [(''baseUrl'', JStr ''https://staging.example.com''),
                          (''apiUrl'', JStr ''https://staging-api.example.com'')]),
      (''production'', JObj [(''baseUrl'', JStr ''https://example.com''),
                             (''apiUrl'', JStr ''https://api.example.com'')])]"

definition object_prototype_keys :: "string list" where
  "object_prototype_keys =
     [''constructor'', ''hasOwnProperty'', ''isPrototypeOf'', ''propertyIsEnumerable'',
      ''toLocaleString'', ''toString'', ''valueOf'', ''__proto__'',
      ''__defineGetter__'', ''__defineSetter__'', ''__lookupGetter__'', ''__lookupSetter__'']"

datatype property = Value jsval | Inherited string

definition get_property :: "(string \<times> jsval) list \<Rightarrow> string \<Rightarrow> property" where
  "get_property obj key =
     (case map_of obj key of
        Some v \<Rightarrow> Value v
      | None \<Rightarrow> if key \<in> set object_prototype_keys then Inherited key else Value JUndefined)"

fun property_truthy :: "property \<Rightarrow> bool" where
  "property_truthy (Value v) = truthy v"
| "property_truthy (Inherited key) = True"

text \<open>The argument is \<open>None\<close> when the caller passes nothing: the default applies.\<close>

definition getUserCredentials :: "string option \<Rightarrow> property" where
  "getUserCredentials userType =
     (let key = (case userType of None \<Rightarrow> ''validUser'' | Some k \<Rightarrow> k) in
      if property_truthy (get_property testUsers key) then get_property testUsers key
      else get_property testUsers ''validUser'')"

definition getEnvironmentConfig :: "string option \<Rightarrow> property" where
  "getEnvironmentConfig env =
     (let key = (case env of None \<Rightarrow> ''dev'' | Some k \<Rightarrow> k) in
      if property_truthy (get_property environments key) then get_property environments key
      else get_property environments ''dev'')"


section \<open>Properties of the response validator\<close>

lemmas validator_defs =
  validateLoginResponse_def check_status_def check_success_def check_message_def
  validate_data_def validate_user_def check_user_types_def check_expected_user_def
  check_expected_email_def check_expected_name_def
  check_access_token_def check_token_expiry_def push_error_def push_warning_def invalidate_def
  and_then_def

lemmas example_defs =
  example_response_def example_data_def example_user_def example_expected_user_def
  example_without_message_def example_unprintable_success_def example_runtime_def
  example_date_parse_def

lemma present: "map_of kvs f = Some x \<Longrightarrow> f \<in> fst ` set kvs"
  by (auto dest!: map_of_SomeD intro: rev_image_eqI)

lemma absent_field_undefined: "has_field f b = Inr False \<Longrightarrow> get_field b f = JUndefined"
  by (cases b) (auto split: option.splits dest!: map_of_SomeD intro: rev_image_eqI)

lemma user_truthy: "user_well_formed u \<Longrightarrow> truthy u"
  by (cases u) (simp_all add: user_well_formed_def)

lemma data_truthy: "data_well_formed d e \<Longrightarrow> truthy d"
  by (cases d) (simp_all add: data_well_formed_def)

lemma validate_user_ok:
  assumes "user_well_formed (get_field d ''user'')"
    and "expected_user_matches (get_field d ''user'') e"
  shows "validate_user rt d e v = Inr v"
  using assms user_truthy[OF assms(1)]
  by (auto simp add: validate_user_def user_well_formed_def expected_user_matches_def
        check_user_types_def check_expected_user_def check_expected_email_def
        check_expected_name_def and_then_def)

lemma validate_data_ok:
  assumes "data_well_formed (get_field b ''data'') e"
  shows "validate_data rt b e v = check_token_expiry rt (get_field b ''data'') v"
  using assms data_truthy[OF assms]
  by (simp add: validate_data_def data_well_formed_def validate_user_ok check_access_token_def
        and_then_def)

lemma check_message_ok:
  "(case get_field b ''message'' of JStr s \<Rightarrow> trim s \<noteq> [] | _ \<Rightarrow> False) \<Longrightarrow> check_message b v = v"
  by (auto simp add: check_message_def split: jsval.splits)

lemma top_level_ok:
  assumes "top_level_well_formed r"
    and "data_well_formed (get_field (body r) ''data'') e"
  shows "validateLoginResponse rt r e =
           check_token_expiry rt (get_field (body r) ''data'')
             \<lparr>isValid = True, errors = [], warnings = []\<rparr>"
  using assms
  by (simp add: validateLoginResponse_def top_level_well_formed_def check_status_def
        check_success_def check_message_ok validate_data_ok and_then_def)

text \<open>
  C1, at the input that breaks it. A response that is well formed except that the user's
  id is the string \<open>"1"\<close> comes back with one error and with \<open>isValid\<close> still true:
  the type checks append to the errors without clearing the flag, unlike the checks
  before them.
\<close>

theorem type_error_leaves_isValid_true:
  "validateLoginResponse example_runtime
     (example_response (example_user (JStr ''1'') (JNum 1)) (JStr ''2999-01-01T00:00:00.000000Z''))
     example_expected_user
   = Inr \<lparr>isValid = True, errors = [''User ID should be a number''], warnings = []\<rparr>"
  by (simp add: validator_defs example_defs trim_def is_space_def)

text \<open>
  C2, as the code has it. A response with status 200 that is well formed except that its
  body has no \<open>message\<close> key is invalid with two errors, in this order: the missing
  field, and the message that is not a non-empty string; there is no warning.
\<close>

theorem missing_message_two_errors:
  assumes "status r = JNum 200"
    and "has_field ''success'' (body r) = Inr True"
    and "has_field ''message'' (body r) = Inr False"
    and "has_field ''data'' (body r) = Inr True"
    and "get_field (body r) ''success'' = JBool True"
    and "data_well_formed (get_field (body r) ''data'') expectedUser"
    and "expiry_in_future rt (get_field (body r) ''data'')"
  shows "validateLoginResponse rt r expectedUser =
           Inr \<lparr>isValid = False,
                errors = [''Missing required field: message'',
                          ''Message field should be a non-empty string''],
                warnings = []\<rparr>"
  using assms(1-5,7) absent_field_undefined[OF assms(3)]
  by (auto simp add: validateLoginResponse_def check_status_def check_success_def check_message_def
        validate_data_ok[OF assms(6)] check_token_expiry_def push_error_def invalidate_def
        expiry_in_future_def and_then_def split: option.splits sum.splits)

theorem missing_message_two_errors_witness:
  "validateLoginResponse example_runtime example_without_message example_expected_user
     = Inr \<lparr>isValid = False,
            errors = [''Missing required field: message'',
                      ''Message field should be a non-empty string''],
            warnings = []\<rparr>"
  using missing_message_two_errors[of example_without_message example_expected_user example_runtime]
  by (simp add: example_defs data_well_formed_def user_well_formed_def expected_user_matches_def
        expiry_in_future_def)

theorem missing_message_counterexample:
  "validateLoginResponse example_runtime example_without_message example_expected_user
     \<noteq> Inr \<lparr>isValid = False, errors = [''Missing required field: message''], warnings = []\<rparr>"
  by (simp add: validator_defs example_defs)

text \<open>
  C3. The well-formed example of the specification, with the expected user
  \<open>{email: "admin@admin.com"}\<close>, is valid with no error and no warning, at every clock
  before the time its expiry parses to.
\<close>

theorem spec_example_is_valid:
  assumes "date_parse rt ''2999-01-01T00:00:00.000000Z'' = Some t"
    and "now rt < t"
  shows "validateLoginResponse rt
           (example_response (example_user (JNum 1) (JNum 1)) (JStr ''2999-01-01T00:00:00.000000Z''))
           example_expected_user
         = Inr \<lparr>isValid = True, errors = [], warnings = []\<rparr>"
  using assms
  by (simp add: validator_defs example_response_def example_data_def example_user_def
        example_expected_user_def trim_def is_space_def)

theorem spec_example_is_valid_witness:
  "date_parse example_runtime ''2999-01-01T00:00:00.000000Z'' = Some 32472144000000
   \<and> now example_runtime < 32472144000000
   \<and> validateLoginResponse example_runtime
        (example_response (example_user (JNum 1) (JNum 1)) (JStr ''2999-01-01T00:00:00.000000Z''))
        example_expected_user
      = Inr \<lparr>isValid = True, errors = [], warnings = []\<rparr>"
proof -
  have p: "date_parse example_runtime ''2999-01-01T00:00:00.000000Z'' = Some 32472144000000"
    by (simp add: example_runtime_def example_date_parse_def)
  have n: "now example_runtime < 32472144000000"
    by (simp add: example_runtime_def)
  show ?thesis using p n spec_example_is_valid[OF p n] by simp
qed

text \<open>
  C4. A response that is well formed in every other respect, whose expiry is a value the
  validator looks at (a non-empty string, say) that yields a valid date at or before the
  clock, is valid, has no error, and has the token-expired warning as its only warning.
\<close>

theorem expired_token_is_warning_only:
  assumes "top_level_well_formed r"
    and "data_well_formed (get_field (body r) ''data'') expectedUser"
    and "truthy (get_field (get_field (body r) ''data'') ''access_token_expire_at'')"
    and "new_Date rt (get_field (get_field (body r) ''data'') ''access_token_expire_at'')
           = Inr (Some t)"
    and "t \<le> now rt"
  shows "validateLoginResponse rt r expectedUser =
           Inr \<lparr>isValid = True, errors = [],
                warnings = [''Access token appears to be expired'']\<rparr>"
  using assms(3-5)
  by (simp add: top_level_ok[OF assms(1,2)] check_token_expiry_def push_warning_def and_then_def)

theorem expired_token_is_warning_only_witness:
  "validateLoginResponse example_runtime
     (example_response (example_user (JNum 1) (JNum 1)) (JStr ''2024-01-01T00:00:00.000000Z''))
     example_expected_user
   = Inr \<lparr>isValid = True, errors = [], warnings = [''Access token appears to be expired'']\<rparr>"
  using expired_token_is_warning_only[of
      "example_response (example_user (JNum 1) (JNum 1)) (JStr ''2024-01-01T00:00:00.000000Z'')"
      example_expected_user example_runtime 1704067200000]
  by (simp add: example_defs top_level_well_formed_def data_well_formed_def user_well_formed_def
        expected_user_matches_def trim_def is_space_def)

subsection \<open>Printing\<close>

lemma collect_error: "collect rs = Inl e \<Longrightarrow> Inl e \<in> set rs"
  by (induction rs) (auto split: sum.splits)

lemma to_string_error: "to_string rt v = Inl e \<Longrightarrow> e = TypeError"
proof (induction rt v rule: to_string.induct)
  case (6 rt xs)
  then obtain x where x: "x \<in> set xs"
    and r: "(case x of JUndefined \<Rightarrow> Inr [] | JNull \<Rightarrow> Inr [] | _ \<Rightarrow> to_string rt x) = Inl e"
    by (auto split: sum.splits dest!: collect_error)
  show ?case using "6.IH" x r by (cases x) auto
qed (simp_all split: if_splits)

lemma unprintable: "\<not> printable rt v \<Longrightarrow> to_string rt v = Inl TypeError"
  using to_string_error[of rt v] by (cases "to_string rt v") (simp_all add: printable_def)

lemma printable_printed: "printable rt v \<Longrightarrow> to_string rt v = Inr (printed rt v)"
  by (cases "to_string rt v") (simp_all add: printable_def printed_def)

lemma new_Date_total: "printable rt v \<Longrightarrow> \<exists>d. new_Date rt v = Inr d"
  by (cases v) (simp_all add: printable_def split: sum.splits if_splits)

subsection \<open>Two responses that differ in the active flag\<close>

lemma has_field_put:
  "f \<in> fst ` set kvs \<Longrightarrow> has_field g (JObj ((f, x) # kvs)) = has_field g (JObj kvs)"
  by auto

lemma check_required_put:
  "f \<in> fst ` set kvs \<Longrightarrow>
   check_required p (JObj ((f, x) # kvs)) fs v = check_required p (JObj kvs) fs v"
  by (induction fs arbitrary: v) (simp_all only: check_required.simps has_field_put)

lemma check_success_put:
  "f \<noteq> ''success'' \<Longrightarrow> check_success rt (JObj ((f, x) # kvs)) = check_success rt (JObj kvs)"
  by (simp add: fun_eq_iff check_success_def)

lemma check_message_put:
  "f \<noteq> ''message'' \<Longrightarrow> check_message (JObj ((f, x) # kvs)) = check_message (JObj kvs)"
  by (simp add: fun_eq_iff check_message_def)

lemma check_required_total: "\<exists>v'. check_required p (JObj kvs) fs v = Inr v'"
proof (induction fs arbitrary: v)
  case Nil
  show ?case by simp
next
  case (Cons f fs)
  show ?case using Cons[of v] Cons[of "push_error (p @ f) (invalidate v)"] by simp
qed

lemma alike_and_then:
  assumes "alike P a b" and "\<And>v w. P v w \<Longrightarrow> alike Q (f v) (g w)"
  shows "alike Q (and_then a f) (and_then b g)"
  using assms by (cases a; cases b) (simp_all add: alike_def and_then_def)

lemma alike_and_then_same:
  assumes "\<And>x. alike Q (f x) (g x)"
  shows "alike Q (and_then a f) (and_then a g)"
  using assms by (cases a) (simp_all add: alike_def and_then_def)

lemma alike_expected_email:
  "adds_warning m v w \<Longrightarrow>
     alike (adds_warning m) (check_expected_email rt u e v) (check_expected_email rt u e w)"
  by (simp add: alike_def adds_warning_def check_expected_email_def and_then_def push_error_def
        split: sum.splits)

lemma alike_expected_name:
  "adds_warning m v w \<Longrightarrow>
     alike (adds_warning m) (check_expected_name rt u e v) (check_expected_name rt u e w)"
  by (simp add: alike_def adds_warning_def check_expected_name_def and_then_def push_warning_def
        split: sum.splits)

lemma alike_expected_user:
  assumes "adds_warning m v w"
  shows "alike (adds_warning m) (check_expected_user rt u e v) (check_expected_user rt u e w)"
proof (cases "truthy e")
  case True
  then show ?thesis
    unfolding check_expected_user_def
    by (simp only: if_True)
      (rule alike_and_then[where P = "adds_warning m"], rule alike_expected_email[OF assms],
        erule alike_expected_name)
next
  case False
  then show ?thesis using assms by (simp add: check_expected_user_def alike_def)
qed

lemma alike_token_expiry:
  "adds_warning m v w \<Longrightarrow>
     alike (adds_warning m) (check_token_expiry rt d v) (check_token_expiry rt d w)"
  by (simp add: alike_def adds_warning_def check_token_expiry_def and_then_def push_error_def
        push_warning_def split: sum.splits option.splits)

lemma adds_warning_access_token:
  "adds_warning m v w \<Longrightarrow> adds_warning m (check_access_token d v) (check_access_token d w)"
  by (simp add: adds_warning_def check_access_token_def push_warning_def)

lemma adds_warning_push: "adds_warning m (push_warning m v) v"
  by (simp add: adds_warning_def push_warning_def)

lemma check_status_total:
  "printable rt (status r) \<Longrightarrow> \<exists>v'. check_status rt r v = Inr v'"
  using printable_printed[of rt "status r"] by (simp add: check_status_def and_then_def)

lemma check_success_total:
  "printable rt (get_field b ''success'') \<Longrightarrow> \<exists>v'. check_success rt b v = Inr v'"
  using printable_printed[of rt "get_field b ''success''"]
  by (simp add: check_success_def and_then_def)

lemma check_expected_user_total:
  assumes "printable rt (get_field e ''email'')" and "printable rt (get_field u ''email'')"
    and "printable rt (get_field e ''name'')" and "printable rt (get_field u ''name'')"
  shows "\<exists>v'. check_expected_user rt u e v = Inr v'"
  using assms[THEN printable_printed]
  by (simp add: check_expected_user_def check_expected_email_def check_expected_name_def
        and_then_def)

lemma check_token_expiry_total:
  assumes "printable rt (get_field d ''access_token_expire_at'')"
  shows "\<exists>v'. check_token_expiry rt d v = Inr v'"
  using new_Date_total[OF assms]
  by (auto simp add: check_token_expiry_def and_then_def split: option.splits)

text \<open>
  C5, as the code has it. Take a response whose user has \<open>is_active\<close> 2, and the same
  response with \<open>is_active\<close> 1. The validator treats them alike: it throws on both, or
  it returns on both with the same errors and the same \<open>isValid\<close>, the first result
  holding the \<open>is_active\<close> warning. It returns whenever each value it may print (the
  status, \<open>success\<close>, the emails and names it compares, the expiry) can be printed;
  it throws when it comes to print an object that has a \<open>toString\<close> key.
\<close>

theorem is_active_two_is_warning_only:
  assumes "get_field (get_field (get_field (body r) ''data'') ''user'') ''is_active'' = JNum 2"
  shows "(case validateLoginResponse rt r expectedUser of
            Inl e \<Rightarrow> validateLoginResponse rt (with_is_active (JNum 1) r) expectedUser = Inl e
          | Inr v \<Rightarrow>
              (\<exists>v1. validateLoginResponse rt (with_is_active (JNum 1) r) expectedUser = Inr v1
                 \<and> ''User is_active should be 0, 1, true, or false'' \<in> set (warnings v)
                 \<and> errors v = errors v1
                 \<and> isValid v = isValid v1))
         \<and> (printable rt (status r)
              \<and> printable rt (get_field (body r) ''success'')
              \<and> printable rt (get_field expectedUser ''email'')
              \<and> printable rt (get_field (get_field (get_field (body r) ''data'') ''user'') ''email'')
              \<and> printable rt (get_field expectedUser ''name'')
              \<and> printable rt (get_field (get_field (get_field (body r) ''data'') ''user'') ''name'')
              \<and> printable rt (get_field (get_field (body r) ''data'') ''access_token_expire_at'')
             \<longrightarrow> (\<exists>v. validateLoginResponse rt r expectedUser = Inr v))"
proof -
  let ?W = "''User is_active should be 0, 1, true, or false''"
  obtain b where b: "body r = JObj b"
    using assms by (cases "body r") simp_all
  obtain d where d: "map_of b ''data'' = Some (JObj d)"
    using assms b by (cases "map_of b ''data''"; cases "get_field (body r) ''data''") auto
  obtain u where u: "map_of d ''user'' = Some (JObj u)"
    using assms b d by (cases "map_of d ''user''"; cases "get_field (JObj d) ''user''") auto
  have a: "map_of u ''is_active'' = Some (JNum 2)"
    using assms b d u by (cases "map_of u ''is_active''") auto
  note pb = present[OF d] and pd = present[OF u] and pu = present[OF a]
  let ?u1 = "JObj ((''is_active'', JNum 1) # u)"
  let ?d1 = "JObj ((''user'', ?u1) # d)"
  let ?b1 = "JObj ((''data'', ?d1) # b)"
  have st: "check_status rt (with_is_active (JNum 1) r) = check_status rt r"
    by (simp add: check_status_def with_is_active_def fun_eq_iff)
  have body1: "body (with_is_active (JNum 1) r) = ?b1"
    using b d u by (simp add: with_is_active_def)
  have gd: "get_field (JObj b) ''data'' = JObj d" "get_field ?b1 ''data'' = ?d1"
    "get_field (JObj d) ''user'' = JObj u" "get_field ?d1 ''user'' = ?u1"
    using d u by simp_all
  have E0: "check_expected_email rt ?u1 expectedUser = check_expected_email rt (JObj u) expectedUser"
    "check_expected_name rt ?u1 expectedUser = check_expected_name rt (JObj u) expectedUser"
    by (auto simp add: fun_eq_iff check_expected_email_def check_expected_name_def)
  have E: "check_token_expiry rt ?d1 = check_token_expiry rt (JObj d)"
    "check_access_token ?d1 = check_access_token (JObj d)"
    "check_expected_user rt ?u1 expectedUser = check_expected_user rt (JObj u) expectedUser"
    by (simp_all add: fun_eq_iff check_token_expiry_def check_access_token_def
          check_expected_user_def E0)
  have T: "check_user_types (JObj u) v =
             push_warning ?W (check_user_types ?u1 v)" for v
    using a by (simp add: check_user_types_def push_error_def push_warning_def Let_def)
  have U: "alike (adds_warning ?W) (validate_user rt (JObj d) expectedUser v)
             (validate_user rt ?d1 expectedUser v)" for v
    unfolding validate_user_def gd check_required_put[OF pu] E T
    by (simp only: truthy.simps if_True)
      (intro alike_and_then_same alike_expected_user adds_warning_push)
  have D: "alike (adds_warning ?W) (validate_data rt (JObj b) expectedUser v)
             (validate_data rt ?b1 expectedUser v)" for v
    unfolding validate_data_def gd check_required_put[OF pd] E
    by (simp only: truthy.simps if_True)
      (rule alike_and_then_same, rule alike_and_then[where P = "adds_warning ?W"], rule U,
        rule alike_token_expiry, erule adds_warning_access_token)
  have A: "alike (adds_warning ?W) (validateLoginResponse rt r expectedUser)
             (validateLoginResponse rt (with_is_active (JNum 1) r) expectedUser)"
    unfolding validateLoginResponse_def st body1 b check_required_put[OF pb]
    by (simp only: check_success_put check_message_put list.inject char.inject simp_thms
          not_False_eq_True)
      (intro alike_and_then_same D)
  have total: "\<exists>v. validateLoginResponse rt r expectedUser = Inr v"
    if p: "printable rt (status r)" "printable rt (get_field (body r) ''success'')"
      "printable rt (get_field expectedUser ''email'')"
      "printable rt (get_field (get_field (get_field (body r) ''data'') ''user'') ''email'')"
      "printable rt (get_field expectedUser ''name'')"
      "printable rt (get_field (get_field (get_field (body r) ''data'') ''user'') ''name'')"
      "printable rt (get_field (get_field (body r) ''data'') ''access_token_expire_at'')"
  proof -
    obtain v0 where v0: "check_status rt r \<lparr>isValid = True, errors = [], warnings = []\<rparr> = Inr v0"
      using check_status_total[OF p(1)] by blast
    obtain v1 where v1: "check_required ''Missing required field: '' (JObj b)
        [''success'', ''message'', ''data''] v0 = Inr v1"
      using check_required_total by blast
    obtain v2 where v2: "check_success rt (JObj b) v1 = Inr v2"
      using check_success_total p(2) b by metis
    obtain v3 where v3: "check_required ''Missing required data field: '' (JObj d)
        [''user'', ''access_token'', ''access_token_expire_at''] (check_message (JObj b) v2) = Inr v3"
      using check_required_total by blast
    obtain v4 where v4: "check_required ''Missing required user field: '' (JObj u)
        [''id'', ''name'', ''email'', ''is_active'', ''created_at'', ''updated_at''] v3 = Inr v4"
      using check_required_total by blast
    obtain v5 where v5: "check_expected_user rt (JObj u) expectedUser
        (check_user_types (JObj u) v4) = Inr v5"
      using check_expected_user_total[of rt expectedUser "JObj u"] p(3-6) b gd by auto
    obtain v6 where v6: "check_token_expiry rt (JObj d) (check_access_token (JObj d) v5) = Inr v6"
      using check_token_expiry_total[of rt "JObj d"] p(7) b gd by auto
    have "validateLoginResponse rt r expectedUser = Inr v6"
      unfolding validateLoginResponse_def b validate_data_def validate_user_def gd
      by (simp only: v0 v1 v2 v3 v4 v5 v6 and_then_def sum.case truthy.simps if_True)
    then show ?thesis by blast
  qed
  show ?thesis
    using A total
    by (auto simp add: alike_def adds_warning_def split: sum.splits)
qed

theorem is_active_two_is_warning_only_witness:
  "get_field (get_field (get_field (body
       (example_response (example_user (JNum 1) (JNum 2)) (JStr ''2999-01-01T00:00:00.000000Z'')))
       ''data'') ''user'') ''is_active'' = JNum 2
   \<and> (\<exists>v v1.
     validateLoginResponse example_runtime
       (example_response (example_user (JNum 1) (JNum 2)) (JStr ''2999-01-01T00:00:00.000000Z''))
       example_expected_user = Inr v
     \<and> validateLoginResponse example_runtime
         (with_is_active (JNum 1)
            (example_response (example_user (JNum 1) (JNum 2)) (JStr ''2999-01-01T00:00:00.000000Z'')))
         example_expected_user = Inr v1
     \<and> ''User is_active should be 0, 1, true, or false'' \<in> set (warnings v)
     \<and> errors v = errors v1
     \<and> isValid v = isValid v1)"
proof -
  let ?r = "example_response (example_user (JNum 1) (JNum 2)) (JStr ''2999-01-01T00:00:00.000000Z'')"
  have h: "get_field (get_field (get_field (body ?r) ''data'') ''user'') ''is_active'' = JNum 2"
    by (simp add: example_defs)
  have p: "printable example_runtime (status ?r)"
    "printable example_runtime (get_field (body ?r) ''success'')"
    "printable example_runtime (get_field example_expected_user ''email'')"
    "printable example_runtime (get_field (get_field (get_field (body ?r) ''data'') ''user'') ''email'')"
    "printable example_runtime (get_field example_expected_user ''name'')"
    "printable example_runtime (get_field (get_field (get_field (body ?r) ''data'') ''user'') ''name'')"
    "printable example_runtime (get_field (get_field (body ?r) ''data'') ''access_token_expire_at'')"
    by (simp_all add: printable_def example_defs)
  note t = is_active_two_is_warning_only[OF h, of example_runtime example_expected_user]
  from t p obtain v where v: "validateLoginResponse example_runtime ?r example_expected_user = Inr v"
    by blast
  from t v show ?thesis using h by auto
qed

text \<open>
  The claim as stated fails when the validator throws before it reaches the flag: here
  \<open>success\<close> is an object with a \<open>toString\<close> key, which line 413 cannot print.
\<close>

theorem is_active_two_counterexample:
  "get_field (get_field (get_field (body example_unprintable_success) ''data'') ''user'')
     ''is_active'' = JNum 2
   \<and> validateLoginResponse example_runtime example_unprintable_success example_expected_user
       = Inl TypeError"
  by (simp add: validator_defs example_defs)

subsection \<open>A falsy data field\<close>

text \<open>
  C8. When the body has the key \<open>data\<close> with a falsy value, the validator makes none
  of the nested checks. It throws only when it has to print a status or a \<open>success\<close>
  value that cannot be printed; otherwise it returns a result without warnings, whose
  errors are among the five that the status, the \<open>success\<close> and \<open>message\<close> keys, and
  the success and message checks can raise: none for \<open>data\<close>. If the status is 200,
  \<open>success\<close> is true and the message is a non-blank string, it returns the valid
  result with no error.
\<close>

theorem falsy_data_skips_nested_checks:
  assumes "has_field ''data'' (body r) = Inr True"
    and "\<not> truthy (get_field (body r) ''data'')"
  shows "(if (status r \<noteq> JNum 200 \<and> \<not> printable rt (status r))
             \<or> (get_field (body r) ''success'' \<noteq> JBool True
                 \<and> \<not> printable rt (get_field (body r) ''success''))
          then validateLoginResponse rt r expectedUser = Inl TypeError
          else (\<exists>v. validateLoginResponse rt r expectedUser = Inr v
                  \<and> warnings v = []
                  \<and> ''Missing required field: data'' \<notin> set (errors v)
                  \<and> set (errors v) \<subseteq>
                      {''Expected status 200, got '' @ printed rt (status r),
                       ''Missing required field: success'',
                       ''Missing required field: message'',
                       ''Expected success to be true, got ''
                         @ printed rt (get_field (body r) ''success''),
                       ''Message field should be a non-empty string''}))
         \<and> (status r = JNum 200 \<and> get_field (body r) ''success'' = JBool True
              \<and> (case get_field (body r) ''message'' of JStr s \<Rightarrow> trim s \<noteq> [] | _ \<Rightarrow> False)
             \<longrightarrow> validateLoginResponse rt r expectedUser
                   = Inr \<lparr>isValid = True, errors = [], warnings = []\<rparr>)"
proof (cases "body r")
  case (JObj kvs)
  have succ: "get_field (JObj kvs) ''success'' = JBool True \<Longrightarrow> ''success'' \<in> fst ` set kvs"
    by (auto split: option.splits dest!: map_of_SomeD intro: rev_image_eqI)
  have msg: "(case get_field (JObj kvs) ''message'' of JStr s \<Rightarrow> trim s \<noteq> [] | _ \<Rightarrow> False)
               \<Longrightarrow> ''message'' \<in> fst ` set kvs"
    by (auto split: option.splits jsval.splits dest!: map_of_SomeD intro: rev_image_eqI)
  have st: "check_status rt r v =
      (if status r = JNum 200 then Inr v
       else if printable rt (status r)
       then Inr (push_error (''Expected status 200, got '' @ printed rt (status r)) (invalidate v))
       else Inl TypeError)" for v
    using unprintable[of rt "status r"] printable_printed[of rt "status r"]
    by (simp add: check_status_def and_then_def)
  have su: "check_success rt (body r) v =
      (if get_field (body r) ''success'' = JBool True then Inr v
       else if printable rt (get_field (body r) ''success'')
       then Inr (push_error (''Expected success to be true, got ''
                   @ printed rt (get_field (body r) ''success'')) (invalidate v))
       else Inl TypeError)" for v
    using unprintable[of rt "get_field (body r) ''success''"]
      printable_printed[of rt "get_field (body r) ''success''"]
    by (simp add: check_success_def and_then_def)
  have vd: "validate_data rt (body r) expectedUser v = Inr v" for v
    using assms(2) by (simp add: validate_data_def)
  show ?thesis
    unfolding validateLoginResponse_def st su vd
    using assms(1) JObj succ msg
    by (auto simp add: check_message_def push_error_def invalidate_def and_then_def
          split: jsval.splits)
qed (use assms in simp_all)

theorem falsy_data_skips_nested_checks_witness:
  "validateLoginResponse example_runtime
     \<lparr>status = JNum 200,
      body = JObj [(''success'', JBool True), (''message'', JStr ''Successfully logged in.''),
                   (''data'', JNull)]\<rparr>
     example_expected_user
   = Inr \<lparr>isValid = True, errors = [], warnings = []\<rparr>"
  using falsy_data_skips_nested_checks[of
      "\<lparr>status = JNum 200,
        body = JObj [(''success'', JBool True), (''message'', JStr ''Successfully logged in.''),
                     (''data'', JNull)]\<rparr>" example_runtime example_expected_user]
  by (auto simp add: trim_def is_space_def)

section \<open>Properties of the page objects\<close>

lemmas io_defs = ret_def raise_def await_def try_catch_def perform_def race_def

lemma await_assoc: "await (await m f) g = await m (\<lambda>x. await (f x) g)"
  by (auto simp add: await_def fun_eq_iff split: prod.splits sum.splits)

lemma await_ret: "await (ret x) f = f x"
  by (simp add: await_def ret_def fun_eq_iff)

lemma await_raise: "await (raise e) f = raise e"
  by (simp add: await_def raise_def fun_eq_iff)

lemma member_cases: "member d f = raise TypeError \<or> member d f = ret (get_field d f)"
  by (cases d) (simp_all add: member_def)

subsection \<open>Visibility probes\<close>

text \<open>
  C7, as the code has it. Each probe makes one wait of 5000 ms and returns, never throws:
  \<open>true\<close> when the wait is fulfilled, \<open>false\<close> when it is rejected, by a timeout or
  otherwise. The one exception is \<open>isVisible\<close> on a component whose root selector is
  falsy (\<open>null\<close>, or the empty string): it makes no wait and returns \<open>true\<close>.
\<close>

theorem probes_convert_timeout_to_false:
  "page_isElementVisible eng selector h =
     (Inr (fulfilled (respond eng h (WaitForSelector selector 5000))),
      h @ [WaitForSelector selector 5000])
   \<and> component_isElementVisible eng rootSelector selector h =
     (Inr (fulfilled (respond eng h (LocatorWaitFor (locator rootSelector selector) 5000))),
      h @ [LocatorWaitFor (locator rootSelector selector) 5000])
   \<and> isVisible eng rootSelector h =
     (if truthy rootSelector
      then (Inr (fulfilled (respond eng h (LocatorWaitFor [rootSelector] 5000))),
            h @ [LocatorWaitFor [rootSelector] 5000])
      else (Inr True, h))"
  by (simp add: page_isElementVisible_def component_isElementVisible_def isVisible_def
        component_root_def fulfilled_def io_defs split: sum.splits)

text \<open>
  The claim as stated fails for the empty root selector: on an engine where no wait on it
  is ever fulfilled, \<open>isVisible\<close> still answers \<open>true\<close>.
\<close>

theorem empty_root_counterexample:
  "respond never_visible [] (LocatorWaitFor [JStr []] 5000) = Inl TimeoutError
   \<and> respond never_visible [] (WaitForSelector (JStr []) 5000) = Inl TimeoutError
   \<and> isVisible never_visible (JStr []) [] = (Inr True, [])"
  by (simp add: never_visible_def isVisible_def io_defs)

subsection \<open>Submit and wait\<close>

lemma swallow:
  "try_catch (await (race eng c cs) (\<lambda>_. ret ())) (\<lambda>_. ret ()) h = (Inr (), h @ c # cs)"
  by (simp add: io_defs split: sum.splits)

lemma login_split:
  "login eng u p rm =
     await (login_before_wait eng u p rm) (\<lambda>_.
       try_catch (await (race eng (hd login_outcome_waits) (tl login_outcome_waits)) (\<lambda>_. ret ()))
         (\<lambda>_. ret ()))"
  by (simp add: login_def login_before_wait_def await_assoc)

lemma submit_split:
  "submitContactForm eng d =
     await (submit_before_wait eng d) (\<lambda>_.
       try_catch (await (race eng (hd contact_outcome_waits) (tl contact_outcome_waits)) (\<lambda>_. ret ()))
         (\<lambda>_. ret ()))"
  by (simp add: submitContactForm_def submit_before_wait_def await_assoc)

text \<open>
  C6. On every engine, once the statements before the \<open>try\<close> block have run without
  throwing, \<open>login\<close> and \<open>submitContactForm\<close> issue their outcome waits and return
  normally, with the unit value, whatever becomes of the waits: in particular when every
  one of them times out. The result tells the caller nothing about the outcome.
\<close>

theorem outcome_wait_is_swallowed:
  "(fst (login_before_wait eng username password rememberMe h) = Inr () \<longrightarrow>
      login eng username password rememberMe h =
        (Inr (), snd (login_before_wait eng username password rememberMe h) @ login_outcome_waits))
   \<and> (fst (submit_before_wait eng contactData h) = Inr () \<longrightarrow>
      submitContactForm eng contactData h =
        (Inr (), snd (submit_before_wait eng contactData h) @ contact_outcome_waits))"
  unfolding login_split submit_split
  by (auto simp add: await_def swallow login_outcome_waits_def contact_outcome_waits_def
        split: prod.splits sum.splits)

lemmas contact_selector_defs =
  contact_firstNameInput_def contact_lastNameInput_def contact_emailInput_def
  contact_phoneInput_def contact_subjectInput_def contact_messageTextarea_def
  contact_inquiryTypeSelect_def contact_attachmentInput_def contact_privacyCheckbox_def
  contact_newsletterCheckbox_def

lemmas page_defs = Let_def waitForElement_def page_isElementVisible_def wait_clear_fill_def wait_click_def
  set_checkbox_def member_def login_fillEmail_def fillUsername_def fillPassword_def clickLoginButton_def
  checkRememberMe_def

lemmas login_selector_defs = login_emailInput_def login_passwordInput_def login_loginButton_def
  login_successMessage_def login_errorMessage_def login_rememberMeCheckbox_def

lemmas contact_defs = fillFirstName_def fillLastName_def contact_fillEmail_def fillPhone_def
  fillSubject_def fillMessage_def selectInquiryType_def checkPrivacyPolicy_def checkNewsletter_def
  uploadAttachment_def clickSubmit_def if_truthy_def if_defined_def fillContactForm_def

lemma login_run:
  "login_before_wait no_outcome (JStr ''testuser@example.com'') (JStr ''TestPass123!'') (JBool True) []
     = (Inr (), [WaitForSelector login_emailInput 10000, Clear login_emailInput,
                 Fill login_emailInput (JStr ''testuser@example.com''),
                 WaitForSelector login_passwordInput 10000, Clear login_passwordInput,
                 Fill login_passwordInput (JStr ''TestPass123!''),
                 WaitForSelector JUndefined 5000, IsChecked JUndefined, Check JUndefined,
                 WaitForSelector login_loginButton 10000, Click login_loginButton])"
  by (simp add: login_before_wait_def page_defs io_defs no_outcome_def login_outcome_waits_def
        contact_outcome_waits_def login_selector_defs contact_successMessage_def
        contact_errorMessage_def)

lemma submit_run:
  "submit_before_wait no_outcome example_contactData []
     = (Inr (), [WaitForSelector contact_emailInput 10000, Clear contact_emailInput,
                 Fill contact_emailInput (JStr ''john.doe@example.com''),
                 WaitForSelector contact_privacyCheckbox 5000, IsChecked contact_privacyCheckbox,
                 WaitForSelector contact_submitButton 10000, Click contact_submitButton])"
  by (simp add: submit_before_wait_def contact_defs page_defs io_defs no_outcome_def
        login_outcome_waits_def contact_outcome_waits_def login_selector_defs
        contact_selector_defs contact_successMessage_def contact_errorMessage_def
        contact_submitButton_def example_contactData_def)

theorem outcome_wait_is_swallowed_witness:
  "list_all (\<lambda>c. respond no_outcome [] c = Inl TimeoutError) (login_outcome_waits @ contact_outcome_waits)
   \<and> login no_outcome (JStr ''testuser@example.com'') (JStr ''TestPass123!'') (JBool True) []
     = (Inr (), [WaitForSelector login_emailInput 10000, Clear login_emailInput,
                 Fill login_emailInput (JStr ''testuser@example.com''),
                 WaitForSelector login_passwordInput 10000, Clear login_passwordInput,
                 Fill login_passwordInput (JStr ''TestPass123!''),
                 WaitForSelector JUndefined 5000, IsChecked JUndefined, Check JUndefined,
                 WaitForSelector login_loginButton 10000, Click login_loginButton]
                @ login_outcome_waits)
   \<and> submitContactForm no_outcome example_contactData []
     = (Inr (), [WaitForSelector contact_emailInput 10000, Clear contact_emailInput,
                 Fill contact_emailInput (JStr ''john.doe@example.com''),
                 WaitForSelector contact_privacyCheckbox 5000, IsChecked contact_privacyCheckbox,
                 WaitForSelector contact_submitButton 10000, Click contact_submitButton]
                @ contact_outcome_waits)"
proof -
  have t: "list_all (\<lambda>c. respond no_outcome [] c = Inl TimeoutError)
             (login_outcome_waits @ contact_outcome_waits)"
    by (simp add: no_outcome_def list_all_iff)
  show ?thesis
    using t login_run submit_run
      outcome_wait_is_swallowed[of no_outcome "JStr ''testuser@example.com''"
        "JStr ''TestPass123!''" "JBool True" "[]" example_contactData]
    by simp
qed

subsection \<open>Which calls a method makes\<close>

lemma only_calls_ret: "only_calls P (ret x)"
  by (simp add: only_calls_def ret_def)

lemma only_calls_raise: "only_calls P (raise e)"
  by (simp add: only_calls_def raise_def)

lemma only_calls_perform: "P c \<Longrightarrow> only_calls P (perform eng c)"
  by (simp add: only_calls_def perform_def)

lemma only_calls_await:
  assumes "only_calls P m" and "\<And>x. only_calls P (f x)"
  shows "only_calls P (await m f)"
  unfolding only_calls_def
proof
  fix h
  obtain r h1 where m: "m h = (r, h1)" by (cases "m h")
  obtain cs where cs: "h1 = h @ cs" "list_all P cs"
    using assms(1) m unfolding only_calls_def by (metis snd_conv)
  show "\<exists>cs. snd (await m f h) = h @ cs \<and> list_all P cs"
  proof (cases r)
    case (Inl e)
    then show ?thesis using m cs by (simp add: await_def)
  next
    case (Inr x)
    obtain ds where "snd (f x h1) = h1 @ ds" "list_all P ds"
      using assms(2)[of x] unfolding only_calls_def by blast
    then show ?thesis using m cs Inr by (simp add: await_def)
  qed
qed

lemma only_calls_try:
  assumes "only_calls P m" and "\<And>e. only_calls P (g e)"
  shows "only_calls P (try_catch m g)"
  unfolding only_calls_def
proof
  fix h
  obtain r h1 where m: "m h = (r, h1)" by (cases "m h")
  obtain cs where cs: "h1 = h @ cs" "list_all P cs"
    using assms(1) m unfolding only_calls_def by (metis snd_conv)
  show "\<exists>cs. snd (try_catch m g h) = h @ cs \<and> list_all P cs"
  proof (cases r)
    case (Inr x)
    then show ?thesis using m cs by (simp add: try_catch_def)
  next
    case (Inl e)
    obtain ds where "snd (g e h1) = h1 @ ds" "list_all P ds"
      using assms(2)[of e] unfolding only_calls_def by blast
    then show ?thesis using m cs Inl by (simp add: try_catch_def)
  qed
qed

lemma only_calls_if:
  "(b \<Longrightarrow> only_calls P m) \<Longrightarrow> (\<not> b \<Longrightarrow> only_calls P n) \<Longrightarrow> only_calls P (if b then m else n)"
  by simp

lemma only_calls_mono: "only_calls P m \<Longrightarrow> (\<And>c. P c \<Longrightarrow> Q c) \<Longrightarrow> only_calls Q m"
  unfolding only_calls_def list_all_iff by blast

lemmas only_calls_intros =
  only_calls_ret only_calls_raise only_calls_perform only_calls_await only_calls_try only_calls_if

lemma only_calls_member: "only_calls P (member v f)"
  by (cases v) (simp_all add: member_def only_calls_intros)

lemma only_calls_probe: "only_calls (\<lambda>c. selector_of c = Some s) (page_isElementVisible eng s)"
  unfolding page_isElementVisible_def by (intro only_calls_intros) simp

lemma only_calls_wait_clear_fill:
  "only_calls (\<lambda>c. selector_of c = Some s) (wait_clear_fill eng s x)"
  unfolding wait_clear_fill_def waitForElement_def by (intro only_calls_intros) simp_all

lemma only_calls_wait_click: "only_calls (\<lambda>c. selector_of c = Some s) (wait_click eng s)"
  unfolding wait_click_def waitForElement_def by (intro only_calls_intros) simp_all

lemma only_calls_set_checkbox: "only_calls (\<lambda>c. selector_of c = Some s) (set_checkbox eng s x)"
  unfolding set_checkbox_def Let_def by (intro only_calls_intros only_calls_probe) simp_all

lemma only_calls_helpers:
  "only_calls (\<lambda>c. selector_of c = Some contact_firstNameInput) (fillFirstName eng x)"
  "only_calls (\<lambda>c. selector_of c = Some contact_lastNameInput) (fillLastName eng x)"
  "only_calls (\<lambda>c. selector_of c = Some contact_emailInput) (contact_fillEmail eng x)"
  "only_calls (\<lambda>c. selector_of c = Some contact_phoneInput) (fillPhone eng x)"
  "only_calls (\<lambda>c. selector_of c = Some contact_subjectInput) (fillSubject eng x)"
  "only_calls (\<lambda>c. selector_of c = Some contact_messageTextarea) (fillMessage eng x)"
  "only_calls (\<lambda>c. selector_of c = Some contact_inquiryTypeSelect) (selectInquiryType eng x)"
  "only_calls (\<lambda>c. selector_of c = Some contact_attachmentInput) (uploadAttachment eng x)"
  "only_calls (\<lambda>c. selector_of c = Some contact_privacyCheckbox) (checkPrivacyPolicy eng x)"
  "only_calls (\<lambda>c. selector_of c = Some contact_newsletterCheckbox) (checkNewsletter eng x)"
  unfolding fillFirstName_def fillLastName_def contact_fillEmail_def fillPhone_def fillSubject_def
    fillMessage_def selectInquiryType_def uploadAttachment_def checkPrivacyPolicy_def
    checkNewsletter_def
  by (intro only_calls_wait_clear_fill only_calls_set_checkbox
        only_calls_intros only_calls_probe; simp)+

lemma only_calls_if_truthy:
  assumes "truthy (get_field d f) \<Longrightarrow> only_calls P (helper (get_field d f))"
  shows "only_calls P (if_truthy d f helper)"
  using member_cases[of d f] assms
  by (auto simp add: if_truthy_def await_ret await_raise only_calls_ret only_calls_raise)

lemma only_calls_if_defined:
  assumes "get_field d f \<noteq> JUndefined \<Longrightarrow> only_calls P (helper (get_field d f))"
  shows "only_calls P (if_defined d f helper)"
  using member_cases[of d f] assms
  by (auto simp add: if_defined_def await_ret await_raise only_calls_ret only_calls_raise)

lemma addressed_iff:
  "s \<in> set (addressed_selectors d) \<longleftrightarrow>
     (\<exists>f. (f, s) \<in> set gated_fields \<and> truthy (get_field d f))
     \<or> (\<exists>f. (f, s) \<in> set checkbox_fields \<and> get_field d f \<noteq> JUndefined)"
  by (force simp add: addressed_selectors_def)

lemma addressed:
  "truthy (get_field d ''firstName'') \<Longrightarrow> contact_firstNameInput \<in> set (addressed_selectors d)"
  "truthy (get_field d ''lastName'') \<Longrightarrow> contact_lastNameInput \<in> set (addressed_selectors d)"
  "truthy (get_field d ''email'') \<Longrightarrow> contact_emailInput \<in> set (addressed_selectors d)"
  "truthy (get_field d ''phone'') \<Longrightarrow> contact_phoneInput \<in> set (addressed_selectors d)"
  "truthy (get_field d ''subject'') \<Longrightarrow> contact_subjectInput \<in> set (addressed_selectors d)"
  "truthy (get_field d ''message'') \<Longrightarrow> contact_messageTextarea \<in> set (addressed_selectors d)"
  "truthy (get_field d ''inquiryType'') \<Longrightarrow> contact_inquiryTypeSelect \<in> set (addressed_selectors d)"
  "truthy (get_field d ''attachment'') \<Longrightarrow> contact_attachmentInput \<in> set (addressed_selectors d)"
  "get_field d ''acceptPrivacy'' \<noteq> JUndefined \<Longrightarrow> contact_privacyCheckbox \<in> set (addressed_selectors d)"
  "get_field d ''subscribeNewsletter'' \<noteq> JUndefined \<Longrightarrow> contact_newsletterCheckbox \<in> set (addressed_selectors d)"
  unfolding addressed_iff
  by (rule disjI1, rule exI, erule conjI[rotated], simp add: gated_fields_def
      | rule disjI2, rule exI, erule conjI[rotated], simp add: checkbox_fields_def)+

lemma only_calls_fillContactForm:
  "only_calls (\<lambda>c. \<exists>s \<in> set (addressed_selectors d). selector_of c = Some s) (fillContactForm eng d)"
  unfolding fillContactForm_def
  apply (intro only_calls_await only_calls_if_truthy only_calls_if_defined)
  apply (rule only_calls_mono[OF only_calls_helpers(1)], drule addressed(1), blast)
  apply (rule only_calls_mono[OF only_calls_helpers(2)], drule addressed(2), blast)
  apply (rule only_calls_mono[OF only_calls_helpers(3)], drule addressed(3), blast)
  apply (rule only_calls_mono[OF only_calls_helpers(4)], drule addressed(4), blast)
  apply (rule only_calls_mono[OF only_calls_helpers(5)], drule addressed(5), blast)
  apply (rule only_calls_mono[OF only_calls_helpers(6)], drule addressed(6), blast)
  apply (rule only_calls_mono[OF only_calls_helpers(7)], drule addressed(7), blast)
  apply (rule only_calls_mono[OF only_calls_helpers(8)], drule addressed(8), blast)
  apply (rule only_calls_mono[OF only_calls_helpers(9)], drule addressed(9), blast)
  apply (rule only_calls_mono[OF only_calls_helpers(10)], drule addressed(10), blast)
  done

lemma selectors_distinct: "distinct (map snd (gated_fields @ checkbox_fields))"
  by (simp add: gated_fields_def checkbox_fields_def contact_selector_defs)

lemma selector_names_field:
  assumes "(f, s) \<in> set (gated_fields @ checkbox_fields)"
    and "(g, s) \<in> set (gated_fields @ checkbox_fields)"
  shows "f = g"
proof -
  have "inj_on snd (set (gated_fields @ checkbox_fields))"
    using selectors_distinct by (simp only: distinct_map)
  then have "(f, s) = (g, s)"
    by (rule inj_onD) (use assms in simp_all)
  then show ?thesis by simp
qed

lemma gated_not_checkbox:
  "(f, s) \<in> set gated_fields \<Longrightarrow> (g, t) \<in> set checkbox_fields \<Longrightarrow> f \<noteq> g"
  by (auto simp add: gated_fields_def checkbox_fields_def)

lemma not_addressed_gated:
  assumes "(f, s) \<in> set gated_fields" and "\<not> truthy (get_field d f)"
  shows "s \<notin> set (addressed_selectors d)"
proof
  assume "s \<in> set (addressed_selectors d)"
  then consider g where "(g, s) \<in> set gated_fields" "truthy (get_field d g)"
    | g where "(g, s) \<in> set checkbox_fields"
    unfolding addressed_iff by blast
  then show False
  proof cases
    case 1
    then have "f = g" using assms(1) selector_names_field[of f s g] by simp
    then show False using 1 assms(2) by simp
  next
    case 2
    then have "f = g" using assms(1) selector_names_field[of f s g] by simp
    then show False using 2 assms(1) gated_not_checkbox by blast
  qed
qed

lemma not_addressed_checkbox:
  assumes "(f, s) \<in> set checkbox_fields" and "get_field d f = JUndefined"
  shows "s \<notin> set (addressed_selectors d)"
proof
  assume "s \<in> set (addressed_selectors d)"
  then consider g where "(g, s) \<in> set gated_fields"
    | g where "(g, s) \<in> set checkbox_fields" "get_field d g \<noteq> JUndefined"
    unfolding addressed_iff by blast
  then show False
  proof cases
    case 1
    then have "g = f" using assms(1) selector_names_field[of g s f] by simp
    then show False using 1 assms(1) gated_not_checkbox by blast
  next
    case 2
    then have "f = g" using assms(1) selector_names_field[of f s g] by simp
    then show False using 2 assms(2) by simp
  qed
qed

lemma only_calls_any: "only_calls P m \<Longrightarrow> only_calls (\<lambda>c. True) m"
  by (erule only_calls_mono) simp

lemma calls_on_success_first:
  assumes "calls_on_success c m" and "\<And>x. only_calls (\<lambda>c. True) (f x)"
  shows "calls_on_success c (await m f)"
  unfolding calls_on_success_def
proof (intro allI impI)
  fix h y h2
  assume run: "await m f h = (Inr y, h2)"
  then obtain x h1 where m: "m h = (Inr x, h1)" and f: "f x h1 = (Inr y, h2)"
    by (auto simp add: await_def split: prod.splits sum.splits)
  have c: "c \<in> set (drop (length h) h1)"
    using assms(1) m unfolding calls_on_success_def by blast
  obtain ds where "snd (f x h1) = h1 @ ds"
    using assms(2)[of x] unfolding only_calls_def by blast
  then show "c \<in> set (drop (length h) h2)"
    using f c by auto
qed

lemma calls_on_success_later:
  assumes "only_calls (\<lambda>c. True) m" and "\<And>x. calls_on_success c (f x)"
  shows "calls_on_success c (await m f)"
  unfolding calls_on_success_def
proof (intro allI impI)
  fix h y h2
  assume run: "await m f h = (Inr y, h2)"
  then obtain x h1 where m: "m h = (Inr x, h1)" and f: "f x h1 = (Inr y, h2)"
    by (auto simp add: await_def split: prod.splits sum.splits)
  obtain cs where cs: "h1 = h @ cs"
    using assms(1) m unfolding only_calls_def by (metis snd_conv)
  have "c \<in> set (drop (length h1) h2)"
    using assms(2)[of x] f unfolding calls_on_success_def by blast
  moreover have "set (drop (length h1) h2) \<subseteq> set (drop (length h) h2)"
    using cs by (intro set_drop_subset_set_drop) simp
  ultimately show "c \<in> set (drop (length h) h2)" by blast
qed

lemma calls_on_success_set_checkbox:
  "calls_on_success (WaitForSelector s 5000) (set_checkbox eng s x)"
  unfolding set_checkbox_def Let_def
proof (rule calls_on_success_first)
  show "calls_on_success (WaitForSelector s 5000) (page_isElementVisible eng s)"
    by (auto simp add: calls_on_success_def page_isElementVisible_def io_defs split: sum.splits)
qed (intro only_calls_intros; simp)

lemma calls_on_success_if_defined:
  assumes "get_field d f \<noteq> JUndefined" and "calls_on_success c (helper (get_field d f))"
  shows "calls_on_success c (if_defined d f helper)"
  using member_cases[of d f] assms
  by (auto simp add: if_defined_def await_ret await_raise calls_on_success_def raise_def)

lemma extends_if_truthy: "only_calls (\<lambda>c. True) (if_truthy d f (fillFirstName eng))"
  "only_calls (\<lambda>c. True) (if_truthy d f (fillLastName eng))"
  "only_calls (\<lambda>c. True) (if_truthy d f (contact_fillEmail eng))"
  "only_calls (\<lambda>c. True) (if_truthy d f (fillPhone eng))"
  "only_calls (\<lambda>c. True) (if_truthy d f (fillSubject eng))"
  "only_calls (\<lambda>c. True) (if_truthy d f (fillMessage eng))"
  "only_calls (\<lambda>c. True) (if_truthy d f (selectInquiryType eng))"
  "only_calls (\<lambda>c. True) (if_truthy d f (uploadAttachment eng))"
  "only_calls (\<lambda>c. True) (if_defined d f (checkPrivacyPolicy eng))"
  "only_calls (\<lambda>c. True) (if_defined d f (checkNewsletter eng))"
  by (intro only_calls_if_truthy only_calls_if_defined only_calls_any[OF only_calls_helpers(1)]
      only_calls_any[OF only_calls_helpers(2)] only_calls_any[OF only_calls_helpers(3)]
      only_calls_any[OF only_calls_helpers(4)] only_calls_any[OF only_calls_helpers(5)]
      only_calls_any[OF only_calls_helpers(6)] only_calls_any[OF only_calls_helpers(7)]
      only_calls_any[OF only_calls_helpers(8)] only_calls_any[OF only_calls_helpers(9)]
      only_calls_any[OF only_calls_helpers(10)])+

lemma checkbox_probed:
  assumes "(f, s) \<in> set checkbox_fields" and "get_field d f \<noteq> JUndefined"
  shows "calls_on_success (WaitForSelector s 5000) (fillContactForm eng d)"
proof -
  consider "f = ''acceptPrivacy''" "s = contact_privacyCheckbox"
    | "f = ''subscribeNewsletter''" "s = contact_newsletterCheckbox"
    using assms(1) by (auto simp add: checkbox_fields_def)
  then show ?thesis
  proof cases
    case 1
    have p: "calls_on_success (WaitForSelector s 5000)
               (if_defined d ''acceptPrivacy'' (checkPrivacyPolicy eng))"
      using assms(2) 1
      by (intro calls_on_success_if_defined)
        (simp_all add: checkPrivacyPolicy_def calls_on_success_set_checkbox)
    show ?thesis
      unfolding fillContactForm_def
      apply (rule calls_on_success_later, rule extends_if_truthy)
      apply (rule calls_on_success_later, rule extends_if_truthy)
      apply (rule calls_on_success_later, rule extends_if_truthy)
      apply (rule calls_on_success_later, rule extends_if_truthy)
      apply (rule calls_on_success_later, rule extends_if_truthy)
      apply (rule calls_on_success_later, rule extends_if_truthy)
      apply (rule calls_on_success_later, rule extends_if_truthy)
      apply (rule calls_on_success_later, rule extends_if_truthy)
      apply (rule calls_on_success_first, rule p, rule extends_if_truthy)
      done
  next
    case 2
    have n: "calls_on_success (WaitForSelector s 5000)
               (if_defined d ''subscribeNewsletter'' (checkNewsletter eng))"
      using assms(2) 2
      by (intro calls_on_success_if_defined)
        (simp_all add: checkNewsletter_def calls_on_success_set_checkbox)
    show ?thesis
      unfolding fillContactForm_def
      apply (rule calls_on_success_later, rule extends_if_truthy)+
      apply (rule n)
      done
  qed
qed

text \<open>
  C9. The calls \<open>fillContactForm\<close> adds to the history address no selector of a field
  whose value is falsy (absent, or the empty string, say), among the eight fields it
  gates on truthiness; and none of a checkbox field that is \<open>undefined\<close>. A checkbox
  field that is not \<open>undefined\<close>, \<open>false\<close> included, has its checkbox probed in every
  run that returns normally.
\<close>

theorem fillContactForm_acts_on_gated_fields_only:
  "\<exists>cs. snd (fillContactForm eng contactData h) = h @ cs
     \<and> (\<forall>(f, s) \<in> set gated_fields.
           \<not> truthy (get_field contactData f) \<longrightarrow> (\<forall>c \<in> set cs. selector_of c \<noteq> Some s))
     \<and> (\<forall>(f, s) \<in> set checkbox_fields.
           get_field contactData f = JUndefined \<longrightarrow> (\<forall>c \<in> set cs. selector_of c \<noteq> Some s))
     \<and> (\<forall>(f, s) \<in> set checkbox_fields.
           get_field contactData f \<noteq> JUndefined \<and> fst (fillContactForm eng contactData h) = Inr ()
           \<longrightarrow> WaitForSelector s 5000 \<in> set cs)"
proof -
  obtain cs where cs: "snd (fillContactForm eng contactData h) = h @ cs"
    and only: "list_all (\<lambda>c. \<exists>s \<in> set (addressed_selectors contactData). selector_of c = Some s) cs"
    using only_calls_fillContactForm[of contactData eng] unfolding only_calls_def by blast
  have a: "selector_of c \<noteq> Some s"
    if "(f, s) \<in> set gated_fields" "\<not> truthy (get_field contactData f)" "c \<in> set cs" for f s c
    using that only not_addressed_gated[of f s contactData] by (auto simp add: list_all_iff)
  have b: "selector_of c \<noteq> Some s"
    if "(f, s) \<in> set checkbox_fields" "get_field contactData f = JUndefined" "c \<in> set cs" for f s c
    using that only not_addressed_checkbox[of f s contactData] by (auto simp add: list_all_iff)
  have c: "WaitForSelector s 5000 \<in> set cs"
    if cf: "(f, s) \<in> set checkbox_fields" and df: "get_field contactData f \<noteq> JUndefined"
      and ok: "fst (fillContactForm eng contactData h) = Inr ()" for f s
  proof -
    obtain h' where run: "fillContactForm eng contactData h = (Inr (), h')"
      using ok by (cases "fillContactForm eng contactData h") auto
    then have "WaitForSelector s 5000 \<in> set (drop (length h) h')"
      using checkbox_probed[OF cf df, of eng] unfolding calls_on_success_def by blast
    then show ?thesis using run cs by simp
  qed
  show ?thesis using cs a b c by blast
qed

theorem fillContactForm_acts_on_gated_fields_only_witness:
  "\<not> truthy (get_field example_contactData ''firstName'')
   \<and> get_field example_contactData ''subscribeNewsletter'' = JUndefined
   \<and> get_field example_contactData ''acceptPrivacy'' \<noteq> JUndefined
   \<and> fst (fillContactForm no_outcome example_contactData []) = Inr ()
   \<and> list_all (\<lambda>c. selector_of c \<noteq> Some contact_firstNameInput
                      \<and> selector_of c \<noteq> Some contact_newsletterCheckbox)
        (snd (fillContactForm no_outcome example_contactData []))
   \<and> WaitForSelector contact_privacyCheckbox 5000
       \<in> set (snd (fillContactForm no_outcome example_contactData []))"
proof -
  have d: "\<not> truthy (get_field example_contactData ''firstName'')"
    "get_field example_contactData ''subscribeNewsletter'' = JUndefined"
    "get_field example_contactData ''acceptPrivacy'' \<noteq> JUndefined"
    by (simp_all add: example_contactData_def)
  have ok: "fst (fillContactForm no_outcome example_contactData []) = Inr ()"
    by (simp add: contact_defs page_defs io_defs no_outcome_def
        login_outcome_waits_def contact_outcome_waits_def login_selector_defs
        contact_selector_defs contact_successMessage_def contact_errorMessage_def
        example_contactData_def)
  have g: "(''firstName'', contact_firstNameInput) \<in> set gated_fields"
    by (simp add: gated_fields_def)
  have c: "(''subscribeNewsletter'', contact_newsletterCheckbox) \<in> set checkbox_fields"
    "(''acceptPrivacy'', contact_privacyCheckbox) \<in> set checkbox_fields"
    by (simp_all add: checkbox_fields_def)
  obtain cs where cs: "snd (fillContactForm no_outcome example_contactData []) = [] @ cs"
    and a: "\<forall>(f, s) \<in> set gated_fields.
           \<not> truthy (get_field example_contactData f) \<longrightarrow> (\<forall>c \<in> set cs. selector_of c \<noteq> Some s)"
    and b: "\<forall>(f, s) \<in> set checkbox_fields.
           get_field example_contactData f = JUndefined \<longrightarrow> (\<forall>c \<in> set cs. selector_of c \<noteq> Some s)"
    and p: "\<forall>(f, s) \<in> set checkbox_fields.
           get_field example_contactData f \<noteq> JUndefined
           \<and> fst (fillContactForm no_outcome example_contactData []) = Inr ()
           \<longrightarrow> WaitForSelector s 5000 \<in> set cs"
    using fillContactForm_acts_on_gated_fields_only[of no_outcome example_contactData "[]"]
    by blast
  show ?thesis
    using d ok cs a[rule_format, OF g] b[rule_format, OF c(1)] p[rule_format, OF c(2)]
    by (simp add: list_all_iff)
qed

section \<open>Properties of the fixture lookups\<close>

text \<open>
  C10, as the code has it. A key that is neither a key of the fixture record nor the name
  of a member of \<open>Object.prototype\<close> falls back: \<open>getUserCredentials\<close> returns the
  \<open>validUser\<close> record and \<open>getEnvironmentConfig\<close> the \<open>dev\<close> configuration.
\<close>

theorem unknown_key_falls_back:
  "(userType \<notin> fst ` set testUsers \<and> userType \<notin> set object_prototype_keys
      \<longrightarrow> getUserCredentials (Some userType) = Value validUser)
   \<and> (env \<notin> fst ` set environments \<and> env \<notin> set object_prototype_keys
      \<longrightarrow> getEnvironmentConfig (Some env) = Value dev)"
proof -
  have u: "map_of testUsers k = None" if "k \<notin> fst ` set testUsers" for k
    using that by (simp add: map_of_eq_None_iff)
  have e: "map_of environments k = None" if "k \<notin> fst ` set environments" for k
    using that by (simp add: map_of_eq_None_iff)
  have v: "map_of testUsers ''validUser'' = Some validUser"
    by (simp add: testUsers_def)
  have d: "map_of environments ''dev'' = Some dev"
    by (simp add: environments_def)
  show ?thesis
    using u[of userType] e[of env] v d
    by (auto simp add: getUserCredentials_def getEnvironmentConfig_def get_property_def)
qed

theorem unknown_key_falls_back_witness:
  "''guestUser'' \<notin> fst ` set testUsers \<and> ''guestUser'' \<notin> set object_prototype_keys
   \<and> getUserCredentials (Some ''guestUser'') = Value validUser
   \<and> ''test'' \<notin> fst ` set environments \<and> ''test'' \<notin> set object_prototype_keys
   \<and> getEnvironmentConfig (Some ''test'') = Value dev"
proof -
  have h: "''guestUser'' \<notin> fst ` set testUsers \<and> ''guestUser'' \<notin> set object_prototype_keys"
    "''test'' \<notin> fst ` set environments \<and> ''test'' \<notin> set object_prototype_keys"
    by (simp_all add: testUsers_def environments_def object_prototype_keys_def)
  show ?thesis
    using h unknown_key_falls_back[of "''guestUser''" "''test''"] by blast
qed

text \<open>
  The claim as stated fails for a key such as \<open>toString\<close>: it is no key of either
  record, yet both lookups return the inherited member instead of the fallback.
\<close>

theorem inherited_key_counterexample:
  "''toString'' \<notin> fst ` set testUsers
   \<and> getUserCredentials (Some ''toString'') = Inherited ''toString''
   \<and> ''toString'' \<notin> fst ` set environments
   \<and> getEnvironmentConfig (Some ''toString'') = Inherited ''toString''"
  by (simp add: getUserCredentials_def getEnvironmentConfig_def get_property_def testUsers_def
        environments_def object_prototype_keys_def)

end
